theory Spec2Isabelle
  imports Main "HOL-Library.Word" "HOL-Library.Signed_Division"
begin

section \<open>Embedding of provision/kubernetes/deploy.go\<close>

text \<open>
  The Go file drives a Kubernetes cluster through a typed client. The embedding keeps the
  control flow of every function it translates and makes the two kinds of effect explicit:

  \<^item> every request sent to the cluster and every line written to an output sink is an
    element of a log (type \<open>call\<close>), in program order;
  \<^item> every answer of the cluster, of the configuration and of the helpers of the
    repository that live outside this file is a field of the record \<open>world\<close>.

  A function that returns a Go \<open>error\<close> returns \<open>error + 'a\<close> here (\<open>Inl\<close> the error), paired
  with the log of what it did before returning.
\<close>

subsection \<open>Machine integers, errors\<close>

type_synonym int32 = "32 word"
type_synonym int64 = "64 word"
type_synonym labelset = "(string \<times> string) list"

text \<open>The errors of the cluster API that the code tells apart (\<open>k8sErrors.IsNotFound\<close>,
  \<open>k8sErrors.IsAlreadyExists\<close>); every other failure is \<open>ApiFailure\<close>.\<close>

datatype api_error = NotFound | AlreadyExists | ApiFailure string

text \<open>Go errors. One constructor for each place where the file builds an error, and the
  wrappers of \<open>github.com/pkg/errors\<close>, which keep the error they wrap. \<open>External\<close> is
  an error of a helper outside the file. \<open>Panic\<close> is a run-time panic: it is not an error
  value of the program, it unwinds every caller, and no function of the file recovers from
  it.\<close>

datatype error =
    Api api_error
  | External string
  | WithStack error
  | WithMessage error string
  | Wrapf error string
  | UnexpectedCmds "string list"
  | NoDestinationImages
  | AttachFailed string string error
  | GenerationTimeout
  | ProgressDeadline string
  | DeployTimeout string "string list"
  | MultiError "error list"
  | ErrUnitStartup error
  | Panic string

fun IsNotFound :: "error \<Rightarrow> bool" where
  "IsNotFound (Api NotFound) = True"
| "IsNotFound _ = False"

fun IsAlreadyExists :: "error \<Rightarrow> bool" where
  "IsAlreadyExists (Api AlreadyExists) = True"
| "IsAlreadyExists _ = False"

subsection \<open>Cluster objects\<close>

record VolumeMount =
  vmName :: string
  vmMountPath :: string

datatype VolumeSource = HostPath string | EmptyDir

record Volume =
  volName :: string
  volSource :: VolumeSource

record EnvVar =
  envName :: string
  envValue :: string

text \<open>\<open>cSecurityContext\<close> is \<open>None\<close> when the container has no security context, and
  \<open>Some uid\<close> when it has one whose \<open>RunAsUser\<close> is the (nullable) \<open>uid\<close>.\<close>

record Container =
  cName :: string
  cImage :: string
  cCommand :: "string list"
  cEnv :: "EnvVar list"
  cSecurityContext :: "int64 option option"
  cVolumeMounts :: "VolumeMount list"
  cStdin :: bool
  cStdinOnce :: bool

datatype RestartPolicy = RestartPolicyNever | RestartPolicyAlways

record Pod =
  podName :: string
  podNamespace :: string
  podLabels :: labelset
  podAnnotations :: labelset
  podImagePullSecrets :: "string list"
  podServiceAccountName :: string
  podNodeSelector :: labelset
  podVolumes :: "Volume list"
  podRestartPolicy :: RestartPolicy
  podContainers :: "Container list"

text \<open>The docker-config secret of \<open>ensureAuthSecret\<close>. \<open>secAuth\<close> is the text
  \<open>username:password\<close> that the code encodes in base 64.\<close>

record Secret =
  secName :: string
  secRegistry :: string
  secUsername :: string
  secPassword :: string
  secAuth :: string

record App =
  appName :: string
  appPool :: string
  appMemory :: int64

subsection \<open>Deployments and services\<close>

record DeploymentCondition =
  condType :: string
  condReason :: string

text \<open>A deployment as the cluster returns it: the fields of its metadata, of its
  specification and of its status that the file reads.\<close>

record Deployment =
  depName :: string
  depGeneration :: int64
  depSpecReplicas :: "int32 option"
  depTemplateLabels :: labelset
  depTemplateAnnotations :: labelset
  depObservedGeneration :: int64
  depUpdatedReplicas :: int32
  depUnavailableReplicas :: int32
  depReplicas :: int32
  depConditions :: "DeploymentCondition list"

record Probe =
  probeFailureThreshold :: int32
  probePath :: string
  probePort :: int64
  probeScheme :: string

text \<open>The deployment object that \<open>createAppDeployment\<close> sends. The memory limit and the
  memory request are \<open>None\<close> when the resource list has no entry for memory.\<close>

record DeploymentObj =
  doName :: string
  doNamespace :: string
  doLabels :: labelset
  doAnnotations :: labelset
  doMaxSurge :: string
  doMaxUnavailable :: int
  doReplicas :: int32
  doRevisionHistoryLimit :: int32
  doSelector :: labelset
  doImagePullSecrets :: "string list"
  doServiceAccountName :: string
  doRunAsUser :: "int64 option"
  doNodeSelector :: labelset
  doVolumes :: "Volume list"
  doSubdomain :: string
  doImage :: string
  doCommand :: "string list"
  doEnv :: "EnvVar list"
  doProbe :: "Probe option"
  doMemoryLimit :: "int64 option"
  doMemoryRequest :: "int64 option"
  doVolumeMounts :: "VolumeMount list"
  doContainerPort :: int32

datatype ServiceType = ServiceTypeNodePort | ServiceTypeClusterIP

record ServiceObj =
  svcName :: string
  svcNamespace :: string
  svcLabels :: labelset
  svcAnnotations :: labelset
  svcSelector :: labelset
  svcPort :: int32
  svcTargetPort :: int64
  svcClusterIP :: string
  svcType :: ServiceType

subsection \<open>Output lines\<close>

text \<open>One constructor for each format string written to an output sink.\<close>

datatype line =
    CleaningUp
  | UpdatingUnits string
  | UnitsCreated int32 int32
  | WaitingHealthcheck int32
  | UnitsReady int32 int32
  | PendingTermination int32
  | EventLine string
  | PodNotReady string
  | DoneUpdating
  | RollingBack error
  | ErrorDuringRollback error

subsection \<open>The log\<close>

datatype call =
    CreateServiceAccount string labelset
  | UpdateSecret Secret
  | CreateSecret Secret
  | CreatePod Pod
  | DeletePod string
  | WatchPodEvents string string
  | StopWatch
  | WaitContainersRunning string
  | Attach string string
  | WaitPod string
  | GetDeployment string
  | ListEvents
  | CreateDeployment DeploymentObj
  | UpdateDeployment DeploymentObj
  | RollbackDeployment string
  | CreateService ServiceObj
  | Print line

type_synonym 'a res = "call list \<times> (error + 'a)"

definition ok :: "'a \<Rightarrow> 'a res" where
  "ok x = ([], Inr x)"

definition fail :: "error \<Rightarrow> 'a res" where
  "fail e = ([], Inl e)"

text \<open>Sequencing: run \<open>m\<close>; on an error stop with it, otherwise continue with \<open>f\<close> and
  append what it logs.\<close>

definition andThen :: "'a res \<Rightarrow> ('a \<Rightarrow> 'b res) \<Rightarrow> 'b res" where
  "andThen m f =
    (case m of
       (cs, Inl e) \<Rightarrow> (cs, Inl e)
     | (cs, Inr x) \<Rightarrow> (case f x of (cs', r) \<Rightarrow> (cs @ cs', r)))"

text \<open>A request to the cluster that answers with an optional error.\<close>

definition request :: "call \<Rightarrow> api_error option \<Rightarrow> unit res" where
  "request c answer =
    (case answer of None \<Rightarrow> ([c], Inr ()) | Some e \<Rightarrow> ([c], Inl (Api e)))"

subsection \<open>The world outside the file\<close>

record world =
  \<comment> \<open>configuration: \<open>config.GetString\<close> gives the empty string for an unset key\<close>
  cfgRegistry :: string
  cfgRegistryUser :: string
  cfgRegistryPass :: string
  cfgDeploySidecarImage :: string
  cfgDeployInspectImage :: string
  cfgNamespace :: string
  \<comment> \<open>helpers of the repository defined outside this file\<close>
  registrySecretName :: "string \<Rightarrow> string"
  SplitImageName :: "string \<Rightarrow> string \<times> string"
  serviceAccountNameForApp :: "App \<Rightarrow> string"
  ServiceAccountLabels :: "App \<Rightarrow> labelset"
  BuildServiceLabels :: "App \<Rightarrow> error + labelset"
  SplitServiceLabelsAnnotations :: "labelset \<Rightarrow> labelset \<times> labelset"
  SetBuildImage :: "string \<Rightarrow> labelset \<Rightarrow> labelset"
  ToLabels :: "labelset \<Rightarrow> labelset"
  ToSelector :: "labelset \<Rightarrow> labelset"
  createVolumesForApp :: "App \<Rightarrow> error + (Volume list \<times> VolumeMount list)"
  EnvsForApp :: "App \<Rightarrow> string \<Rightarrow> bool \<Rightarrow> EnvVar list"
  NodeSelectorForPool :: "string \<Rightarrow> labelset"
  UserForContainer :: "int64 option"
  ArchiveBuildCmds :: "App \<Rightarrow> string \<Rightarrow> string list"
  DeployCmds :: "App \<Rightarrow> string list"
  buildPodNameForApp :: "App \<Rightarrow> error + string"
  deployPodNameForApp :: "App \<Rightarrow> error + string"
  decodeInspect :: "string \<Rightarrow> error + (string \<times> string \<times> string)"
  \<comment> \<open>answers of the cluster\<close>
  serviceAccountsCreate :: "api_error option"
  secretsUpdate :: "api_error option"
  secretsCreate :: "api_error option"
  podsCreate :: "api_error option"
  watchEvents :: "error option"
  waitForPodContainersRunning :: "error option"
  doAttach :: "error option"
  attachStdout :: string
  waitForPod :: "error option"

subsection \<open>Strings\<close>

definition dockerSockPath :: string where
  "dockerSockPath = ''/var/run/docker.sock''"

definition buildIntercontainerPath :: string where
  "buildIntercontainerPath = ''/tmp/intercontainer''"

definition buildIntercontainerDone :: string where
  "buildIntercontainerDone = buildIntercontainerPath @ ''/done''"

text \<open>\<open>strings.Split(image, "/")[0]\<close>: the text before the first slash, the whole text
  when there is none.\<close>

definition imgDomain :: "string \<Rightarrow> string" where
  "imgDomain img = takeWhile (\<lambda>c. c \<noteq> CHR ''/'') img"

text \<open>\<open>strings.Join\<close>.\<close>

fun Join :: "string list \<Rightarrow> string \<Rightarrow> string" where
  "Join [] sep = []"
| "Join [x] sep = x"
| "Join (x # y # ys) sep = x @ sep @ Join (y # ys) sep"

text \<open>\<open>strconv.FormatInt(i, 10)\<close> on a 64-bit signed integer.\<close>

fun showNat :: "nat \<Rightarrow> string" where
  "showNat n =
    (if n < 10 then [char_of (48 + n)]
     else showNat (n div 10) @ [char_of (48 + n mod 10)])"

definition FormatInt :: "int64 \<Rightarrow> string" where
  "FormatInt i =
    (if sint i < 0 then CHR ''-'' # showNat (nat (- sint i)) else showNat (nat (sint i)))"

definition nl :: string where
  "nl = [CHR 0x0A]"

definition tabs :: "nat \<Rightarrow> string" where
  "tabs n = replicate n (CHR 0x09)"

subsection \<open>Registry credentials\<close>

definition ensureAuthSecret :: "world \<Rightarrow> unit res" where
  "ensureAuthSecret w =
    (let registry = cfgRegistry w;
         username = cfgRegistryUser w;
         password = cfgRegistryPass w
     in if length username = 0 \<and> length password = 0 then ok ()
        else
          let secret = \<lparr>secName = registrySecretName w registry, secRegistry = registry,
                secUsername = username, secPassword = password,
                secAuth = username @ '':'' @ password\<rparr>
          in (case secretsUpdate w of
                None \<Rightarrow> ([UpdateSecret secret], Inr ())
              | Some e \<Rightarrow>
                  if IsNotFound (Api e)
                  then (case secretsCreate w of
                          None \<Rightarrow> ([UpdateSecret secret, CreateSecret secret], Inr ())
                        | Some e' \<Rightarrow>
                            ([UpdateSecret secret, CreateSecret secret],
                             Inl (WithStack (Api e'))))
                  else ([UpdateSecret secret], Inl (WithStack (Api e)))))"

text \<open>The result is the list of the names of the \<open>LocalObjectReference\<close>s; Go's \<open>nil\<close>
  slice is the empty list.\<close>

definition getImagePullSecrets :: "world \<Rightarrow> string list \<Rightarrow> string list res" where
  "getImagePullSecrets w images =
    (let registry = cfgRegistry w;
         useSecret = list_ex (\<lambda>img. imgDomain img = registry) images
     in if \<not> useSecret then ok []
        else andThen (ensureAuthSecret w) (\<lambda>_.
          let secretName = registrySecretName w registry in ok [secretName]))"

definition registryAuth :: "world \<Rightarrow> string \<Rightarrow> string \<times> string \<times> string" where
  "registryAuth w img =
    (let d = imgDomain img;
         r = cfgRegistry w
     in if d \<noteq> r then ('''', '''', '''')
        else
          let username = cfgRegistryUser w;
              password = cfgRegistryPass w
          in if length username = 0 \<and> length password = 0 then ('''', '''', '''')
             else (username, password, d))"

subsection \<open>Service accounts\<close>

definition ensureServiceAccount :: "world \<Rightarrow> string \<Rightarrow> labelset \<Rightarrow> unit res" where
  "ensureServiceAccount w name labels =
    (case serviceAccountsCreate w of
       None \<Rightarrow> ([CreateServiceAccount name (ToLabels w labels)], Inr ())
     | Some e \<Rightarrow>
         if \<not> IsAlreadyExists (Api e)
         then ([CreateServiceAccount name (ToLabels w labels)], Inl (WithStack (Api e)))
         else ([CreateServiceAccount name (ToLabels w labels)], Inr ()))"

definition ensureServiceAccountForApp :: "world \<Rightarrow> App \<Rightarrow> unit res" where
  "ensureServiceAccountForApp w a =
    (let labels = ServiceAccountLabels w a
     in ensureServiceAccount w (serviceAccountNameForApp w a) labels)"

subsection \<open>The sidecar pipeline\<close>

text \<open>\<open>createPodParams\<close>. The client is the \<open>world\<close>, the writer \<open>attachOutput\<close> is the
  log; \<open>p_attachInput\<close> is \<open>None\<close> for a nil reader.\<close>

record createPodParams =
  p_app :: App
  p_podName :: string
  p_cmds :: "string list"
  p_sourceImage :: string
  p_destinationImages :: "string list"
  p_inputFile :: string
  p_attachInput :: "string option"

text \<open>A deferred call runs when the function returns, on every path.\<close>

definition deferred :: "call \<Rightarrow> 'a res \<Rightarrow> 'a res" where
  "deferred c m = (case m of (cs, r) \<Rightarrow> (cs @ [c], r))"

text \<open>\<open>filteredPodEvents\<close> opens a new client and a watch on the events of pods; any of
  its three steps may fail, which is the answer \<open>watchEvents\<close>.\<close>

definition filteredPodEvents :: "world \<Rightarrow> string \<Rightarrow> string \<Rightarrow> unit res" where
  "filteredPodEvents w evtResourceVersion name =
    (case watchEvents w of
       None \<Rightarrow> ([WatchPodEvents evtResourceVersion name], Inr ())
     | Some e \<Rightarrow> ([WatchPodEvents evtResourceVersion name], Inl e))"

text \<open>The pod of \<open>createPod\<close>, lines 247 to 338, from the parameters and from what the
  earlier steps of the function gave: the split labels and annotations, the volumes and
  mounts of the application, and the pull secrets.\<close>

definition createPod_pod ::
    "world \<Rightarrow> createPodParams \<Rightarrow> labelset \<Rightarrow> labelset \<Rightarrow> Volume list \<Rightarrow> VolumeMount list
      \<Rightarrow> string list \<Rightarrow> Pod" where
  "createPod_pod w params labels annotations volumes mounts pullSecrets =
    (let baseName = p_podName params;
         envs = EnvsForApp w (p_app params) '''' True;
         nodeSelector = NodeSelectorForPool w (appPool (p_app params));
         commitContainer = ''committer-cont'';
         uid = UserForContainer w;
         runAsUser = (case uid of None \<Rightarrow> '''' | Some u \<Rightarrow> FormatInt u);
         (regUser, regPass, regDomain) = registryAuth w (p_destinationImages params ! 0)
     in \<lparr>podName = baseName,
         podNamespace = cfgNamespace w,
         podLabels = ToLabels w labels,
         podAnnotations = ToLabels w annotations,
         podImagePullSecrets = pullSecrets,
         podServiceAccountName = serviceAccountNameForApp w (p_app params),
         podNodeSelector = nodeSelector,
         podVolumes =
           [\<lparr>volName = ''dockersock'', volSource = HostPath dockerSockPath\<rparr>,
            \<lparr>volName = ''intercontainer'', volSource = EmptyDir\<rparr>] @ volumes,
         podRestartPolicy = RestartPolicyNever,
         podContainers =
           [\<lparr>cName = baseName,
             cImage = p_sourceImage params,
             cCommand = [''/bin/sh'', ''-ec'',
               ''while [ ! -f '' @ buildIntercontainerDone @ '' ]; do sleep 5; done''],
             cEnv = envs,
             cSecurityContext = Some uid,
             cVolumeMounts =
               [\<lparr>vmName = ''intercontainer'', vmMountPath = buildIntercontainerPath\<rparr>]
               @ mounts,
             cStdin = False,
             cStdinOnce = False\<rparr>,
            \<lparr>cName = commitContainer,
             cImage = cfgDeploySidecarImage w,
             cCommand = [''sh'', ''-ec'',
               nl @ tabs 7 @ ''end() { touch '' @ buildIntercontainerDone @ ''; }''
               @ nl @ tabs 7 @ ''trap end EXIT''
               @ nl @ tabs 7 @ ''mkdir -p $(dirname '' @ p_inputFile params
               @ '') && cat >'' @ p_inputFile params @ '' && ''
               @ Join (drop 2 (p_cmds params)) '' ''
               @ nl @ tabs 6],
             cEnv =
               [\<lparr>envName = ''DEPLOYAGENT_RUN_AS_SIDECAR'', envValue = ''true''\<rparr>,
                \<lparr>envName = ''DEPLOYAGENT_DESTINATION_IMAGES'',
                 envValue = Join (p_destinationImages params) '',''\<rparr>,
                \<lparr>envName = ''DEPLOYAGENT_INPUT_FILE'', envValue = p_inputFile params\<rparr>,
                \<lparr>envName = ''DEPLOYAGENT_RUN_AS_USER'', envValue = runAsUser\<rparr>,
                \<lparr>envName = ''DEPLOYAGENT_REGISTRY_AUTH_USER'', envValue = regUser\<rparr>,
                \<lparr>envName = ''DEPLOYAGENT_REGISTRY_AUTH_PASS'', envValue = regPass\<rparr>,
                \<lparr>envName = ''DEPLOYAGENT_REGISTRY_ADDRESS'', envValue = regDomain\<rparr>],
             cSecurityContext = None,
             cVolumeMounts =
               [\<lparr>vmName = ''dockersock'', vmMountPath = dockerSockPath\<rparr>,
                \<lparr>vmName = ''intercontainer'', vmMountPath = buildIntercontainerPath\<rparr>]
               @ mounts,
             cStdin = True,
             cStdinOnce = True\<rparr>]\<rparr>)"

text \<open>The steps of \<open>createPod\<close> after the pod is created, lines 343 to 374. The lines that
  the goroutine of the watch writes for the events of the pod are not part of the log.\<close>

definition createPod_wait :: "world \<Rightarrow> createPodParams \<Rightarrow> Pod \<Rightarrow> unit res" where
  "createPod_wait w params pod =
    (let commitContainer = ''committer-cont''
     in andThen (filteredPodEvents w '''' (p_podName params)) (\<lambda>_.
        deferred StopWatch
          (andThen
             (case waitForPodContainersRunning w of
                None \<Rightarrow> ([WaitContainersRunning (podName pod)], Inr ())
              | Some e \<Rightarrow> ([WaitContainersRunning (podName pod)], Inl e))
             (\<lambda>_.
           andThen
             (case p_attachInput params of
                None \<Rightarrow> ok ()
              | Some input \<Rightarrow>
                  (case doAttach w of
                     Some e \<Rightarrow>
                       ([Attach (podName pod) commitContainer],
                        Inl (AttachFailed (podName pod) commitContainer e))
                   | None \<Rightarrow>
                       ([Attach (podName pod) commitContainer, Print CleaningUp], Inr ())))
             (\<lambda>_.
              case waitForPod w of
                None \<Rightarrow> ([WaitPod (podName pod)], Inr ())
              | Some e \<Rightarrow> ([WaitPod (podName pod)], Inl e))))))"

definition createPod :: "world \<Rightarrow> createPodParams \<Rightarrow> unit res" where
  "createPod w params =
    (if length (p_cmds params) \<noteq> 3 then fail (UnexpectedCmds (p_cmds params))
     else if length (p_destinationImages params) = 0 then fail NoDestinationImages
     else andThen (ensureServiceAccountForApp w (p_app params)) (\<lambda>_.
       case BuildServiceLabels w (p_app params) of
         Inl e \<Rightarrow> fail e
       | Inr labels0 \<Rightarrow>
       let (labels, annotations0) = SplitServiceLabelsAnnotations w labels0 in
       case createVolumesForApp w (p_app params) of
         Inl e \<Rightarrow> fail e
       | Inr (volumes, mounts) \<Rightarrow>
       let annotations = SetBuildImage w (p_destinationImages params ! 0) annotations0
       in andThen
            (getImagePullSecrets w [p_sourceImage params, cfgDeploySidecarImage w])
            (\<lambda>pullSecrets.
       let pod = createPod_pod w params labels annotations volumes mounts pullSecrets
       in andThen
            (case podsCreate w of
               None \<Rightarrow> ([CreatePod pod], Inr ())
             | Some e \<Rightarrow> ([CreatePod pod], Inl (WithStack (Api e))))
            (\<lambda>_. createPod_wait w params pod))))"

definition createBuildPod :: "world \<Rightarrow> createPodParams \<Rightarrow> unit res" where
  "createBuildPod w params =
    (let cmds = ArchiveBuildCmds w (p_app params) ''file:///home/application/archive.tar.gz''
     in case (if p_podName params = '''' then buildPodNameForApp w (p_app params)
              else Inr (p_podName params)) of
          Inl e \<Rightarrow> fail e
        | Inr name \<Rightarrow> createPod w (params\<lparr>p_podName := name, p_cmds := cmds\<rparr>))"

definition createDeployPod :: "world \<Rightarrow> createPodParams \<Rightarrow> unit res" where
  "createDeployPod w params =
    (if length (p_destinationImages params) = 0 then fail NoDestinationImages
     else
       let cmds = DeployCmds w (p_app params)
       in case (if p_podName params = '''' then deployPodNameForApp w (p_app params)
                else Inr (p_podName params)) of
            Inl e \<Rightarrow> fail e
          | Inr name \<Rightarrow>
              let (repository, tag) = SplitImageName w (p_destinationImages params ! 0);
                  destinationImages =
                    (if tag \<noteq> ''latest''
                     then p_destinationImages params @ [repository @ '':latest'']
                     else p_destinationImages params)
              in createPod w (params\<lparr>p_podName := name, p_cmds := cmds,
                                      p_destinationImages := destinationImages\<rparr>))"

record inspectParams =
  i_sourceImage :: string
  i_podName :: string
  i_destinationImages :: "string list"
  i_labels :: labelset
  i_app :: App

text \<open>The inspect pipeline attaches with the one-byte input \<open>"."\<close> and collects the two
  output streams in the buffers of its caller; what the stream delivers on standard output
  is \<open>attachStdout\<close>. Both steps after the creation of the pod are attempted, and their
  failures are collected.\<close>

text \<open>The pod of \<open>runInspectSidecar\<close>, lines 972 to 1048.\<close>

definition runInspectSidecar_pod ::
    "world \<Rightarrow> inspectParams \<Rightarrow> labelset \<Rightarrow> labelset \<Rightarrow> string list \<Rightarrow> Pod" where
  "runInspectSidecar_pod w params labels annotations pullSecrets =
    (let baseName = i_podName params;
         nodeSelector = NodeSelectorForPool w (appPool (i_app params));
         inspectContainer = ''inspect-cont'';
         (regUser, regPass, regDomain) = registryAuth w (i_destinationImages params ! 0)
     in \<lparr>podName = baseName,
         podNamespace = cfgNamespace w,
         podLabels = ToLabels w labels,
         podAnnotations = ToLabels w annotations,
         podImagePullSecrets = pullSecrets,
         podServiceAccountName = serviceAccountNameForApp w (i_app params),
         podNodeSelector = nodeSelector,
         podVolumes =
           [\<lparr>volName = ''dockersock'', volSource = HostPath dockerSockPath\<rparr>,
            \<lparr>volName = ''intercontainer'', volSource = EmptyDir\<rparr>],
         podRestartPolicy = RestartPolicyNever,
         podContainers =
           [\<lparr>cName = baseName,
             cImage = i_sourceImage params,
             cCommand = [''/bin/sh'', ''-ec'',
               ''while [ ! -f '' @ buildIntercontainerDone @ '' ]; do sleep 5; done''],
             cEnv = [],
             cSecurityContext = None,
             cVolumeMounts =
               [\<lparr>vmName = ''intercontainer'', vmMountPath = buildIntercontainerPath\<rparr>],
             cStdin = False,
             cStdinOnce = False\<rparr>,
            \<lparr>cName = inspectContainer,
             cImage = cfgDeployInspectImage w,
             cCommand = [''sh'', ''-ec'',
               nl @ tabs 7 @ ''end() { touch '' @ buildIntercontainerDone @ ''; }''
               @ nl @ tabs 7 @ ''trap end EXIT''
               @ nl @ tabs 7 @ ''cat >/dev/null && /bin/deploy-agent''
               @ nl @ tabs 6],
             cEnv =
               [\<lparr>envName = ''DEPLOYAGENT_RUN_AS_SIDECAR'', envValue = ''true''\<rparr>,
                \<lparr>envName = ''DEPLOYAGENT_DESTINATION_IMAGES'',
                 envValue = Join (i_destinationImages params) '',''\<rparr>,
                \<lparr>envName = ''DEPLOYAGENT_SOURCE_IMAGE'', envValue = i_sourceImage params\<rparr>,
                \<lparr>envName = ''DEPLOYAGENT_REGISTRY_AUTH_USER'', envValue = regUser\<rparr>,
                \<lparr>envName = ''DEPLOYAGENT_REGISTRY_AUTH_PASS'', envValue = regPass\<rparr>,
                \<lparr>envName = ''DEPLOYAGENT_REGISTRY_ADDRESS'', envValue = regDomain\<rparr>],
             cSecurityContext = None,
             cVolumeMounts =
               [\<lparr>vmName = ''dockersock'', vmMountPath = dockerSockPath\<rparr>,
                \<lparr>vmName = ''intercontainer'', vmMountPath = buildIntercontainerPath\<rparr>],
             cStdin = True,
             cStdinOnce = True\<rparr>]\<rparr>)"

text \<open>The steps of \<open>runInspectSidecar\<close> after the pod is created, lines 1053 to 1066: the
  pod is deleted on every path, and the failures of the two steps that follow are
  collected.\<close>

definition runInspectSidecar_wait :: "world \<Rightarrow> Pod \<Rightarrow> unit res" where
  "runInspectSidecar_wait w pod =
    deferred (DeletePod (podName pod))
      (let inspectContainer = ''inspect-cont'';
           multiErr1 =
             (case waitForPodContainersRunning w of
                None \<Rightarrow> []
              | Some e \<Rightarrow> [WithStack e]);
           multiErr =
             (case doAttach w of
                None \<Rightarrow> multiErr1
              | Some e \<Rightarrow> multiErr1 @ [WithStack e]);
           calls = [WaitContainersRunning (podName pod),
                    Attach (podName pod) inspectContainer]
       in if length multiErr > 0 then (calls, Inl (MultiError multiErr))
          else (case waitForPod w of
                  None \<Rightarrow> (calls @ [WaitPod (podName pod)], Inr ())
                | Some e \<Rightarrow> (calls @ [WaitPod (podName pod)], Inl e)))"

definition runInspectSidecar :: "world \<Rightarrow> inspectParams \<Rightarrow> unit res" where
  "runInspectSidecar w params =
    (if length (i_destinationImages params) = 0 then fail NoDestinationImages
     else andThen (ensureServiceAccountForApp w (i_app params)) (\<lambda>_.
       case BuildServiceLabels w (i_app params) of
         Inl e \<Rightarrow> fail e
       | Inr labels0 \<Rightarrow>
       let (labels, annotations0) = SplitServiceLabelsAnnotations w labels0;
           annotations = SetBuildImage w (i_destinationImages params ! 0) annotations0
       in andThen
            (getImagePullSecrets w [i_sourceImage params, cfgDeploySidecarImage w])
            (\<lambda>pullSecrets.
       let pod = runInspectSidecar_pod w params labels annotations pullSecrets
       in andThen
            (case podsCreate w of
               None \<Rightarrow> ([CreatePod pod], Inr ())
             | Some e \<Rightarrow> ([CreatePod pod], Inl (WithStack (Api e))))
            (\<lambda>_. runInspectSidecar_wait w pod))))"

text \<open>The result is the decoded answer of the inspect container: the image, the Procfile
  and the tsuru.yaml data. The texts of the two buffers, which the source quotes in the
  messages of its wrapped errors, are left out of the error values.\<close>

definition imageTagAndPush ::
    "world \<Rightarrow> App \<Rightarrow> string \<Rightarrow> string \<Rightarrow> (string \<times> string \<times> string) res" where
  "imageTagAndPush w a oldImage newImage =
    (case deployPodNameForApp w a of
       Inl e \<Rightarrow> fail e
     | Inr deployPodName \<Rightarrow>
     case BuildServiceLabels w a of
       Inl e \<Rightarrow> fail e
     | Inr labels \<Rightarrow>
     let destImages0 = [newImage];
         (repository, tag) = SplitImageName w newImage;
         destImages =
           (if tag \<noteq> ''latest'' then destImages0 @ [repository @ '':latest'']
            else destImages0)
     in case runInspectSidecar w
               \<lparr>i_sourceImage = oldImage, i_podName = deployPodName,
                i_destinationImages = destImages, i_labels = labels, i_app = a\<rparr> of
          (cs, Inl e) \<Rightarrow> (cs, Inl (Wrapf e ''unable to pull and tag image''))
        | (cs, Inr _) \<Rightarrow>
            (case decodeInspect w (attachStdout w) of
               Inl e \<Rightarrow> (cs, Inl (Wrapf e ''invalid image inspect response''))
             | Inr d \<Rightarrow> (cs, Inr d)))"

subsection \<open>The world of a rollout\<close>

record Healthcheck =
  hcPath :: string
  hcScheme :: string
  hcMethod :: string
  hcAllowedFailures :: int64

record Event =
  evtName :: string
  evtInvolvedObjectName :: string
  evtInvolvedObjectFieldPath :: string
  evtMessage :: string
  evtSourceComponent :: string
  evtSourceHost :: string

text \<open>The object of a message of the watch is an event or something else.\<close>

datatype watchEvent = EventObject Event | OtherObject

text \<open>Which case of the \<open>select\<close> statement of the convergence loop is taken.\<close>

datatype selected =
    Tick
  | WatchMessage watchEvent
  | WatchClosed
  | HealthcheckTimeout
  | ProgressTimeout

text \<open>What the environment answers during one iteration of the loop that waits for the
  observed generation: the deployment read, and whether the progress timeout fires before
  the tick of 100 ms.\<close>

record genObs =
  g_get :: "error + Deployment"
  g_timeout :: bool

text \<open>What the environment answers during one iteration of the convergence loop: the
  result of \<open>allNewPodsRunning\<close> (consulted only when the loop asks), the case of the
  \<open>select\<close> that is taken, the result of \<open>notReadyPodEvents\<close> (consulted only to build a
  timeout error) and the deployment read at the end of the iteration.\<close>

record obs =
  o_allNewPodsRunning :: "bool \<times> error option"
  o_selected :: selected
  o_notReadyPodEvents :: "error + string list"
  o_get :: "error + Deployment"

record rollout =
  cfgHost :: string
  overcommitConf :: "string \<Rightarrow> int64 option"
  deploymentNameForApp :: "App \<Rightarrow> string \<Rightarrow> string"
  headlessServiceNameForApp :: "App \<Rightarrow> string \<Rightarrow> string"
  labelSetFromMeta :: "labelset \<Rightarrow> labelset \<Rightarrow> labelset"
  ExtendServiceLabels :: "labelset \<Rightarrow> labelset"
  SetIsHeadlessService :: "labelset \<Rightarrow> labelset"
  appToken :: "App \<Rightarrow> string"
  LeanContainerCmdsWithExtra ::
    "string \<Rightarrow> string \<Rightarrow> App \<Rightarrow> string list \<Rightarrow> error + string list"
  GetImageWebProcessName :: "string \<Rightarrow> error + string"
  GetImageTsuruYamlData :: "string \<Rightarrow> error + Healthcheck"
  imageExposedPort :: "string \<Rightarrow> string"
  WebProcessDefaultPort :: string
  DefaultHealthcheckScheme :: string
  Atoi :: "string \<Rightarrow> int64"
  ToUpper :: "string \<Rightarrow> string"
  ensureNodeContainers :: "error option"
  deploymentsGet :: "api_error + Deployment"
  eventsList :: "error + string"
  deploymentsCreate :: "api_error + Deployment"
  deploymentsUpdate :: "api_error + Deployment"
  deploymentsRollback :: "error option"
  servicesCreate :: "api_error option"
  headlessServicesCreate :: "api_error option"
  generationObs :: "genObs list"
  convergenceObs :: "obs list"

subsection \<open>Labels of the current deployment\<close>

text \<open>\<open>serviceManager.CurrentLabels\<close>: \<open>Inr None\<close> is the pair of a nil label set and a nil
  error.\<close>

definition CurrentLabels :: "rollout \<Rightarrow> App \<Rightarrow> string \<Rightarrow> labelset option res" where
  "CurrentLabels d a process =
    (let depName = deploymentNameForApp d a process
     in case deploymentsGet d of
          Inl e \<Rightarrow>
            if IsNotFound (Api e) then ([GetDeployment depName], Inr None)
            else ([GetDeployment depName], Inl (WithStack (Api e)))
        | Inr dep \<Rightarrow>
            ([GetDeployment depName],
             Inr (Some (labelSetFromMeta d (depTemplateLabels dep)
                          (depTemplateAnnotations dep)))))"

subsection \<open>Building the deployment\<close>

definition dq :: string where
  "dq = [CHR 0x22]"

definition HasPrefix :: "string \<Rightarrow> string \<Rightarrow> bool" where
  "HasPrefix s p = (take (length p) s = p)"

definition HasSuffix :: "string \<Rightarrow> string \<Rightarrow> bool" where
  "HasSuffix s p = (length p \<le> length s \<and> drop (length s - length p) s = p)"

definition extraRegisterCmds :: "rollout \<Rightarrow> App \<Rightarrow> string" where
  "extraRegisterCmds d a =
    (let host0 = cfgHost d;
         host1 = (if \<not> HasPrefix host0 ''http'' then ''http://'' @ host0 else host0);
         host = (if \<not> HasSuffix host1 ''/'' then host1 @ ''/'' else host1);
         token = appToken d a
     in ''curl -sSL -m15 -XPOST -d'' @ dq @ ''hostname=$(hostname)'' @ dq
        @ '' -o/dev/null -H'' @ dq @ ''Content-Type:application/x-www-form-urlencoded'' @ dq
        @ '' -H'' @ dq @ ''Authorization:bearer '' @ token @ dq @ '' '' @ host
        @ ''apps/'' @ appName a @ ''/units/register || true'')"

text \<open>\<open>Inr None\<close> is the pair of a nil probe and a nil error.\<close>

definition probeFromHC :: "rollout \<Rightarrow> Healthcheck \<Rightarrow> int64 \<Rightarrow> error + Probe option" where
  "probeFromHC d hc port =
    (if hcPath hc = '''' then Inr None
     else
       let scheme0 = (if hcScheme hc = '''' then DefaultHealthcheckScheme d else hcScheme hc);
           scheme = ToUpper d scheme0;
           method = ToUpper d (hcMethod hc)
       in if method \<noteq> '''' \<and> method \<noteq> ''GET''
          then Inl (External
            ''healthcheck: only GET method is supported in kubernetes provisioner'')
          else Inr (Some \<lparr>probeFailureThreshold = ucast (hcAllowedFailures hc),
                           probePath = hcPath hc, probePort = port,
                           probeScheme = scheme\<rparr>))"

text \<open>\<open>strings.SplitN(s, "/", 2)\<close> has two parts exactly when \<open>s\<close> contains a slash, and the
  first part is then the text before the first slash.\<close>

definition getTargetPortForImage :: "rollout \<Rightarrow> string \<Rightarrow> int64" where
  "getTargetPortForImage d imgName =
    (let port0 = WebProcessDefaultPort d;
         exposedPort = imageExposedPort d imgName;
         port = (if exposedPort \<noteq> '''' \<and> CHR ''/'' \<in> set exposedPort
                 then takeWhile (\<lambda>c. c \<noteq> CHR ''/'') exposedPort else port0)
     in Atoi d port)"

text \<open>Modelled from the spec: \<open>ClusterClient.OvercommitFactor\<close> is defined outside this
  file. The specification says of the factor that ``division by a zero or unset factor is
  a configuration error and must fail fast'': the helper answers with an error when the
  factor of the pool is unset (\<open>None\<close>) or zero, and with the factor otherwise.\<close>

definition OvercommitFactor :: "rollout \<Rightarrow> string \<Rightarrow> error + int64" where
  "OvercommitFactor d pool =
    (case overcommitConf d pool of
       None \<Rightarrow> Inl (External ''overcommit factor is not set'')
     | Some f \<Rightarrow> if f = 0 then Inl (External ''overcommit factor is zero'') else Inr f)"

text \<open>Division of 64-bit signed integers in Go: it truncates towards zero, wraps around on
  overflow, and panics on a zero divisor (\<open>None\<close>).\<close>

definition goDiv64 :: "int64 \<Rightarrow> int64 \<Rightarrow> int64 option" where
  "goDiv64 a b = (if b = 0 then None else Some (word_of_int (sint a sdiv sint b)))"

text \<open>The memory part of the resource lists, lines 492 to 502, given the answer of
  \<open>OvercommitFactor\<close>: the limit and the request, each \<open>None\<close> when the list has no entry.\<close>

definition memoryResources ::
    "error + int64 \<Rightarrow> int64 \<Rightarrow> error + (int64 option \<times> int64 option)" where
  "memoryResources answer memory =
    (case answer of
       Inl e \<Rightarrow> Inl (WithMessage e ''misconfigured cluster overcommit factor'')
     | Inr overcommit \<Rightarrow>
         if memory \<noteq> 0
         then (case goDiv64 memory overcommit of
                 None \<Rightarrow> Inl (Panic ''runtime error: integer divide by zero'')
               | Some q \<Rightarrow> Inr (Some memory, Some q))
         else Inr (None, None))"

text \<open>Lines 474 to 484: the probe of the process, which only the web process has.\<close>

definition createAppDeployment_probe ::
    "rollout \<Rightarrow> string \<Rightarrow> string \<Rightarrow> string \<Rightarrow> int64 \<Rightarrow> error + Probe option" where
  "createAppDeployment_probe d process imageName webProcessName portInt =
    (if process = webProcessName
     then (case GetImageTsuruYamlData d imageName of
             Inl e \<Rightarrow> Inl (WithStack e)
           | Inr hc \<Rightarrow> probeFromHC d hc portInt)
     else Inr None)"

text \<open>The deployment object of lines 512 to 568, from the arguments and from what the
  earlier steps of the function gave.\<close>

definition createAppDeployment_deployment ::
    "world \<Rightarrow> rollout \<Rightarrow> App \<Rightarrow> string \<Rightarrow> string \<Rightarrow> int64 \<Rightarrow> labelset \<Rightarrow> labelset
      \<Rightarrow> string list \<Rightarrow> Probe option \<Rightarrow> int64 option \<Rightarrow> int64 option
      \<Rightarrow> Volume list \<Rightarrow> VolumeMount list \<Rightarrow> string list \<Rightarrow> DeploymentObj" where
  "createAppDeployment_deployment w d a process imageName replicas labels annotations
      cmds probe resourceLimits resourceRequests volumes mounts pullSecrets =
    (let realReplicas = (ucast replicas :: int32);
         envs = EnvsForApp w a process False;
         depName = deploymentNameForApp d a process;
         tenRevs = 10;
         portInt = getTargetPortForImage d imageName;
         nodeSelector = NodeSelectorForPool w (appPool a);
         uid = UserForContainer w
     in \<lparr>doName = depName,
         doNamespace = cfgNamespace w,
         doLabels = ToLabels w labels,
         doAnnotations = ToLabels w annotations,
         doMaxSurge = ''100%'',
         doMaxUnavailable = 0,
         doReplicas = realReplicas,
         doRevisionHistoryLimit = tenRevs,
         doSelector = ToSelector w labels,
         doImagePullSecrets = pullSecrets,
         doServiceAccountName = serviceAccountNameForApp w a,
         doRunAsUser = uid,
         doNodeSelector = nodeSelector,
         doVolumes = volumes,
         doSubdomain = headlessServiceNameForApp d a process,
         doImage = imageName,
         doCommand = cmds,
         doEnv = envs,
         doProbe = probe,
         doMemoryLimit = resourceLimits,
         doMemoryRequest = resourceRequests,
         doVolumeMounts = mounts,
         doContainerPort = ucast portInt\<rparr>)"

definition createAppDeployment ::
    "world \<Rightarrow> rollout \<Rightarrow> Deployment option \<Rightarrow> App \<Rightarrow> string \<Rightarrow> string \<Rightarrow> int64 \<Rightarrow> labelset
      \<Rightarrow> (Deployment \<times> labelset \<times> labelset) res" where
  "createAppDeployment w d oldDeployment a process imageName replicas labels0 =
    (let labels1 = ExtendServiceLabels d labels0;
         extra = [extraRegisterCmds d a]
     in case LeanContainerCmdsWithExtra d process imageName a extra of
          Inl e \<Rightarrow> fail (WithStack e)
        | Inr cmds \<Rightarrow>
     case GetImageWebProcessName d imageName of
       Inl e \<Rightarrow> fail (WithStack e)
     | Inr webProcessName \<Rightarrow>
     let portInt = getTargetPortForImage d imageName
     in case createAppDeployment_probe d process imageName webProcessName portInt of
          Inl e \<Rightarrow> fail e
        | Inr probe \<Rightarrow>
     case memoryResources (OvercommitFactor d (appPool a)) (appMemory a) of
       Inl e \<Rightarrow> fail e
     | Inr (resourceLimits, resourceRequests) \<Rightarrow>
     case createVolumesForApp w a of
       Inl e \<Rightarrow> fail e
     | Inr (volumes, mounts) \<Rightarrow>
     andThen (getImagePullSecrets w [imageName]) (\<lambda>pullSecrets.
     let (labels, annotations) = SplitServiceLabelsAnnotations w labels1;
         deployment = createAppDeployment_deployment w d a process imageName replicas
           labels annotations cmds probe resourceLimits resourceRequests
           volumes mounts pullSecrets
     in case oldDeployment of
          None \<Rightarrow>
            (case deploymentsCreate d of
               Inl e \<Rightarrow> ([CreateDeployment deployment], Inl (WithStack (Api e)))
             | Inr newDep \<Rightarrow> ([CreateDeployment deployment], Inr (newDep, labels, annotations)))
        | Some old \<Rightarrow>
            (case deploymentsUpdate d of
               Inl e \<Rightarrow> ([UpdateDeployment deployment], Inl (WithStack (Api e)))
             | Inr newDep \<Rightarrow>
                 ([UpdateDeployment deployment], Inr (newDep, labels, annotations)))))"

subsection \<open>Monitoring a rollout\<close>

definition DeploymentProgressing :: string where
  "DeploymentProgressing = ''Progressing''"

definition deadlineExeceededProgressCond :: string where
  "deadlineExeceededProgressCond = ''ProgressDeadlineExceeded''"

text \<open>\<open>createDeployTimeoutError\<close>: the lines written and the error built from the answer of
  \<open>notReadyPodEvents\<close>. The elapsed time of the message is left out.\<close>

definition createDeployTimeoutError :: "error + string list \<Rightarrow> string \<Rightarrow> call list \<times> error" where
  "createDeployTimeoutError notReady label =
    (case notReady of
       Inr messages \<Rightarrow> (map (\<lambda>m. Print (PodNotReady m)) messages, DeployTimeout label messages)
     | Inl e \<Rightarrow> ([], DeployTimeout label []))"

definition isDeploymentEvent :: "watchEvent \<Rightarrow> Deployment \<Rightarrow> bool" where
  "isDeploymentEvent msg dep =
    (case msg of
       EventObject evt \<Rightarrow> HasPrefix (evtName evt) (depName dep)
     | OtherObject \<Rightarrow> False)"

definition formatEvtMessage :: "watchEvent \<Rightarrow> bool \<Rightarrow> string" where
  "formatEvtMessage msg showSub =
    (case msg of
       OtherObject \<Rightarrow> ''''
     | EventObject evt \<Rightarrow>
         let subStr = (if showSub \<and> evtInvolvedObjectFieldPath evt \<noteq> ''''
                       then '' - '' @ evtInvolvedObjectFieldPath evt else '''');
             component = [evtSourceComponent evt]
               @ (if evtSourceHost evt \<noteq> '''' then [evtSourceHost evt] else [])
         in evtInvolvedObjectName evt @ subStr @ '' - '' @ evtMessage evt
            @ '' ['' @ Join component '', '' @ '']'')"

text \<open>The loop of lines 705 to 715. \<open>None\<close>: the observations end before the loop does.\<close>

fun waitGeneration :: "genObs list \<Rightarrow> Deployment \<Rightarrow> (call list \<times> (error + Deployment)) option" where
  "waitGeneration [] dep =
    (if sint (depObservedGeneration dep) < sint (depGeneration dep) then None
     else Some ([], Inr dep))"
| "waitGeneration (g # rest) dep =
    (if sint (depObservedGeneration dep) < sint (depGeneration dep)
     then (case g_get g of
             Inl e \<Rightarrow> Some ([GetDeployment (depName dep)], Inl e)
           | Inr dep' \<Rightarrow>
               if g_timeout g then Some ([GetDeployment (depName dep)], Inl GenerationTimeout)
               else (case waitGeneration rest dep' of
                       None \<Rightarrow> None
                     | Some (cs, r) \<Rightarrow> Some (GetDeployment (depName dep) # cs, r)))
     else Some ([], Inr dep))"

text \<open>The local variables of the convergence loop: the three counters of the previous
  iteration, whether the health-check timer is armed (\<open>healthcheckTimeout\<close> is not nil) and
  whether the channel of the watch is still read (\<open>watchCh\<close> is not nil).\<close>

record mstate =
  oldUpdatedReplicas :: int32
  oldReadyUnits :: int32
  oldPendingTermination :: int32
  healthcheckArmed :: bool
  watchOpen :: bool

text \<open>Lines 731 to 736: some condition has the type \<open>Progressing\<close> and the reason
  \<open>ProgressDeadlineExceeded\<close>.\<close>

definition deadlineExceeded :: "Deployment \<Rightarrow> bool" where
  "deadlineExceeded dep =
    list_ex (\<lambda>c. condType c = DeploymentProgressing
                \<and> condReason c = deadlineExeceededProgressCond) (depConditions dep)"

text \<open>Lines 737 to 762, one pass over the status of the deployment: the lines written, the
  local variables afterwards, and whether the loop ends (\<open>break\<close>).\<close>

definition iteration ::
    "int32 \<Rightarrow> mstate \<Rightarrow> Deployment \<Rightarrow> bool \<times> error option \<Rightarrow> call list \<times> mstate \<times> bool" where
  "iteration specReplicas st dep running =
    (let out1 = (if oldUpdatedReplicas st \<noteq> depUpdatedReplicas dep
                 then [Print (UnitsCreated (depUpdatedReplicas dep) specReplicas)] else []);
         arm = (healthcheckArmed st = False \<and> depUpdatedReplicas dep = specReplicas
                \<and> fst running \<and> snd running = None);
         out2 = (if arm then [Print (WaitingHealthcheck specReplicas)] else []);
         readyUnits = depUpdatedReplicas dep - depUnavailableReplicas dep;
         out3 = (if oldReadyUnits st \<noteq> readyUnits \<and> 0 \<le> sint readyUnits
                 then [Print (UnitsReady readyUnits specReplicas)] else []);
         pendingTermination = depReplicas dep - depUpdatedReplicas dep;
         out4 = (if oldPendingTermination st \<noteq> pendingTermination
                    \<and> 0 < sint pendingTermination
                 then [Print (PendingTermination pendingTermination)] else []);
         st' = \<lparr>oldUpdatedReplicas = depUpdatedReplicas dep,
                oldReadyUnits = readyUnits,
                oldPendingTermination = pendingTermination,
                healthcheckArmed = (healthcheckArmed st \<or> arm),
                watchOpen = watchOpen st\<rparr>
     in (out1 @ out2 @ out3 @ out4, st',
         readyUnits = specReplicas \<and> depReplicas dep = specReplicas))"

text \<open>Lines 763 to 777, the \<open>select\<close>. A nil channel is never ready: the timer of the
  health check cannot fire before it is armed, and the watch delivers nothing once it is
  closed; an observation that says otherwise is not a run of the program
  (\<open>Impossible\<close>).\<close>

datatype waited = Proceed "call list" mstate | Stop "call list" error | Impossible

definition selectStep :: "mstate \<Rightarrow> Deployment \<Rightarrow> obs \<Rightarrow> waited" where
  "selectStep st dep ob =
    (case o_selected ob of
       Tick \<Rightarrow> Proceed [] st
     | WatchMessage msg \<Rightarrow>
         if watchOpen st
         then Proceed (if isDeploymentEvent msg dep
                       then [Print (EventLine (formatEvtMessage msg False))] else []) st
         else Impossible
     | WatchClosed \<Rightarrow>
         if watchOpen st then Proceed [] (st\<lparr>watchOpen := False\<rparr>) else Impossible
     | HealthcheckTimeout \<Rightarrow>
         if healthcheckArmed st
         then (case createDeployTimeoutError (o_notReadyPodEvents ob) ''healthcheck'' of
                 (cs, e) \<Rightarrow> Stop cs e)
         else Impossible
     | ProgressTimeout \<Rightarrow>
         (case createDeployTimeoutError (o_notReadyPodEvents ob) ''full rollout'' of
            (cs, e) \<Rightarrow> Stop cs e))"

text \<open>The loop of lines 730 to 782. The result is the log and the error returned, \<open>None\<close>
  for nil, when the loop ends within the observations given.\<close>

fun convergenceLoop ::
    "obs list \<Rightarrow> int32 \<Rightarrow> mstate \<Rightarrow> Deployment \<Rightarrow> (call list \<times> error option) option" where
  "convergenceLoop [] specReplicas st dep =
    (if deadlineExceeded dep then Some ([], Some (ProgressDeadline (depName dep)))
     else None)"
| "convergenceLoop (ob # rest) specReplicas st dep =
    (if deadlineExceeded dep then Some ([], Some (ProgressDeadline (depName dep)))
     else
       (case iteration specReplicas st dep (o_allNewPodsRunning ob) of
          (out, st', converged) \<Rightarrow>
            if converged then Some (out, None)
            else
              (case selectStep st' dep ob of
                 Impossible \<Rightarrow> None
               | Stop cs e \<Rightarrow> Some (out @ cs, Some e)
               | Proceed cs st'' \<Rightarrow>
                   (case o_get ob of
                      Inl e \<Rightarrow> Some (out @ cs @ [GetDeployment (depName dep)], Some e)
                    | Inr dep' \<Rightarrow>
                        (case convergenceLoop rest specReplicas st'' dep' of
                           None \<Rightarrow> None
                         | Some (cs', r) \<Rightarrow>
                             Some (out @ cs @ [GetDeployment (depName dep)] @ cs', r))))))"

definition monitorDeployment ::
    "world \<Rightarrow> rollout \<Rightarrow> Deployment \<Rightarrow> App \<Rightarrow> string \<Rightarrow> string
      \<Rightarrow> (call list \<times> error option) option" where
  "monitorDeployment w d dep0 a processName evtResourceVersion =
    (case filteredPodEvents w evtResourceVersion '''' of
       (cs, Inl e) \<Rightarrow> Some (cs, Some e)
     | (cs, Inr _) \<Rightarrow>
         (case waitGeneration (generationObs d) dep0 of
            None \<Rightarrow> None
          | Some (cs1, Inl e) \<Rightarrow>
              Some (cs @ [Print (UpdatingUnits processName)] @ cs1 @ [StopWatch], Some e)
          | Some (cs1, Inr dep) \<Rightarrow>
              let specReplicas = (case depSpecReplicas dep of Some n \<Rightarrow> n | None \<Rightarrow> 0);
                  st0 = \<lparr>oldUpdatedReplicas = - 1, oldReadyUnits = - 1,
                         oldPendingTermination = - 1, healthcheckArmed = False,
                         watchOpen = True\<rparr>
              in (case convergenceLoop (convergenceObs d) specReplicas st0 dep of
                    None \<Rightarrow> None
                  | Some (cs2, Some e) \<Rightarrow>
                      Some (cs @ [Print (UpdatingUnits processName)] @ cs1 @ cs2
                            @ [StopWatch], Some e)
                  | Some (cs2, None) \<Rightarrow>
                      Some (cs @ [Print (UpdatingUnits processName)] @ cs1 @ cs2
                            @ [Print DoneUpdating, StopWatch], None))))"

subsection \<open>Deploying a service\<close>

text \<open>\<open>serviceManager.DeployService\<close>, in three parts. The log holds what is written to
  \<open>m.writer\<close>, whichever writer that is.

  Lines 788 to 811, up to the creation or the update of the deployment: the result is the
  resource version of the list of events, the deployment that the cluster returned, and the
  labels and annotations.\<close>

definition DeployService_apply ::
    "world \<Rightarrow> rollout \<Rightarrow> App \<Rightarrow> string \<Rightarrow> labelset \<Rightarrow> int64 \<Rightarrow> string
      \<Rightarrow> (string \<times> Deployment \<times> labelset \<times> labelset) res" where
  "DeployService_apply w d a process labels0 replicas img =
    (case ensureNodeContainers d of
       Some e \<Rightarrow> fail e
     | None \<Rightarrow>
     andThen (ensureServiceAccountForApp w a) (\<lambda>_.
     let depName = deploymentNameForApp d a process
     in andThen
          (case deploymentsGet d of
             Inl e \<Rightarrow>
               if \<not> IsNotFound (Api e)
               then ([GetDeployment depName], Inl (WithStack (Api e)))
               else ([GetDeployment depName], Inr None)
           | Inr dep \<Rightarrow> ([GetDeployment depName], Inr (Some dep)))
          (\<lambda>dep.
        andThen
          (case eventsList d of
             Inl e \<Rightarrow> ([ListEvents], Inl e)
           | Inr resourceVersion \<Rightarrow> ([ListEvents], Inr resourceVersion))
          (\<lambda>resourceVersion.
        andThen (createAppDeployment w d dep a process img replicas labels0)
          (\<lambda>(newDep, labels, annotations).
             ok (resourceVersion, newDep, labels, annotations))))))"

text \<open>Lines 826 to 874, the two services: the log and the error returned, \<open>None\<close> for nil.\<close>

definition DeployService_services ::
    "world \<Rightarrow> rollout \<Rightarrow> App \<Rightarrow> string \<Rightarrow> string \<Rightarrow> labelset \<Rightarrow> labelset
      \<Rightarrow> call list \<times> error option" where
  "DeployService_services w d a process img labels annotations =
    (let depName = deploymentNameForApp d a process;
         targetPort = getTargetPortForImage d img;
         port = Atoi d (WebProcessDefaultPort d);
         svc = \<lparr>svcName = depName, svcNamespace = cfgNamespace w,
                svcLabels = ToLabels w labels, svcAnnotations = ToLabels w annotations,
                svcSelector = ToSelector w labels, svcPort = ucast port,
                svcTargetPort = targetPort, svcClusterIP = '''',
                svcType = ServiceTypeNodePort\<rparr>
     in case (case servicesCreate d of
                Some e \<Rightarrow> if \<not> IsAlreadyExists (Api e) then Some (Api e) else None
              | None \<Rightarrow> None) of
          Some e \<Rightarrow> ([CreateService svc], Some e)
        | None \<Rightarrow>
            let labels' = SetIsHeadlessService d labels;
                hsvc = \<lparr>svcName = headlessServiceNameForApp d a process,
                        svcNamespace = cfgNamespace w,
                        svcLabels = ToLabels w labels',
                        svcAnnotations = ToLabels w annotations,
                        svcSelector = ToSelector w labels', svcPort = ucast port,
                        svcTargetPort = targetPort, svcClusterIP = ''None'',
                        svcType = ServiceTypeClusterIP\<rparr>
            in (case headlessServicesCreate d of
                  Some e \<Rightarrow>
                    if \<not> IsAlreadyExists (Api e)
                    then ([CreateService svc, CreateService hsvc], Some (Api e))
                    else ([CreateService svc, CreateService hsvc], None)
                | None \<Rightarrow> ([CreateService svc, CreateService hsvc], None)))"

text \<open>The whole function; lines 812 to 825 are the monitor and the rollback. The result is
  \<open>None\<close> when the monitor does not return within the observations of the rollout.\<close>

definition DeployService ::
    "world \<Rightarrow> rollout \<Rightarrow> App \<Rightarrow> string \<Rightarrow> labelset \<Rightarrow> int64 \<Rightarrow> string
      \<Rightarrow> (call list \<times> error option) option" where
  "DeployService w d a process labels0 replicas img =
    (case DeployService_apply w d a process labels0 replicas img of
       (cs, Inl e) \<Rightarrow> Some (cs, Some e)
     | (cs, Inr (resourceVersion, newDep, labels, annotations)) \<Rightarrow>
         (case monitorDeployment w d newDep a process resourceVersion of
            None \<Rightarrow> None
          | Some (cs3, Some err) \<Rightarrow>
              let depName = deploymentNameForApp d a process;
                  pre = cs @ cs3 @ [Print (RollingBack err), RollbackDeployment depName]
              in (case deploymentsRollback d of
                    Some rollbackErr \<Rightarrow>
                      Some (pre @ [Print (ErrorDuringRollback rollbackErr)],
                            Some (ErrUnitStartup err))
                  | None \<Rightarrow> Some (pre, Some (ErrUnitStartup err)))
          | Some (cs3, None) \<Rightarrow>
              (case DeployService_services w d a process img labels annotations of
                 (cs4, r) \<Rightarrow> Some (cs @ cs3 @ cs4, r))))"

section \<open>Notions of the specification\<close>

text \<open>The mount of the scratch volume that carries the sentinel file.\<close>

definition sentinelMount :: VolumeMount where
  "sentinelMount = \<lparr>vmName = ''intercontainer'', vmMountPath = buildIntercontainerPath\<rparr>"




text \<open>A list of destination images extended with the tag \<open>latest\<close> of the repository of
  its first image, unless that image already has the tag \<open>latest\<close>; \<open>split\<close> is
  \<open>image.SplitImageName\<close>.\<close>

definition withLatest :: "(string \<Rightarrow> string \<times> string) \<Rightarrow> string list \<Rightarrow> string list" where
  "withLatest split images =
    (if snd (split (images ! 0)) = ''latest'' then images
     else images @ [fst (split (images ! 0)) @ '':latest''])"





section \<open>A concrete world\<close>

definition exampleApp :: App where
  "exampleApp = \<lparr>appName = ''myapp'', appPool = ''pool1'', appMemory = 1024\<rparr>"

definition exampleWorld :: world where
  "exampleWorld = \<lparr>
     cfgRegistry = ''registry.example.com'',
     cfgRegistryUser = ''user'',
     cfgRegistryPass = ''secret'',
     cfgDeploySidecarImage = ''tsuru/deploy-agent:0.2.8'',
     cfgDeployInspectImage = ''tsuru/deploy-agent:0.2.8'',
     cfgNamespace = ''default'',
     registrySecretName = (\<lambda>r. ''registry-'' @ r),
     SplitImageName = (\<lambda>s. (takeWhile (\<lambda>c. c \<noteq> CHR '':'') s,
                              drop 1 (dropWhile (\<lambda>c. c \<noteq> CHR '':'') s))),
     serviceAccountNameForApp = (\<lambda>a. ''app-'' @ appName a),
     ServiceAccountLabels = (\<lambda>a. [(''app'', appName a)]),
     BuildServiceLabels = (\<lambda>a. Inr [(''app'', appName a), (''is-build'', ''true'')]),
     SplitServiceLabelsAnnotations = (\<lambda>l. (l, [])),
     SetBuildImage = (\<lambda>i l. (''build-image'', i) # l),
     ToLabels = (\<lambda>l. l),
     ToSelector = (\<lambda>l. take 1 l),
     createVolumesForApp = (\<lambda>a. Inr ([], [])),
     EnvsForApp = (\<lambda>a p b. []),
     NodeSelectorForPool = (\<lambda>p. [(''pool'', p)]),
     UserForContainer = None,
     ArchiveBuildCmds = (\<lambda>a u. [''download'', ''extract'', ''build'']),
     DeployCmds = (\<lambda>a. [''deploy-only'', ''archive'', ''deploy'']),
     buildPodNameForApp = (\<lambda>a. Inr (appName a @ ''-build'')),
     deployPodNameForApp = (\<lambda>a. Inr (appName a @ ''-deploy'')),
     decodeInspect = (\<lambda>s. Inr (s, '''', '''')),
     serviceAccountsCreate = None,
     secretsUpdate = Some NotFound,
     secretsCreate = None,
     podsCreate = None,
     watchEvents = None,
     waitForPodContainersRunning = None,
     doAttach = None,
     attachStdout = ''{}'',
     waitForPod = None\<rparr>"

definition exampleParams :: createPodParams where
  "exampleParams = \<lparr>
     p_app = exampleApp,
     p_podName = ''myapp-v2-build'',
     p_cmds = [''download'', ''extract'', ''build''],
     p_sourceImage = ''registry.example.com/tsuru/python'',
     p_destinationImages = [''registry.example.com/tsuru/app-myapp:v2''],
     p_inputFile = ''/home/application/archive.tar.gz'',
     p_attachInput = Some ''archive''\<rparr>"

definition exampleInspect :: inspectParams where
  "exampleInspect = \<lparr>
     i_sourceImage = ''registry.example.com/tsuru/app-myapp:v2-builder'',
     i_podName = ''myapp-v2-deploy'',
     i_destinationImages = [''registry.example.com/tsuru/app-myapp:v2''],
     i_labels = [],
     i_app = exampleApp\<rparr>"

definition exampleDeployment :: Deployment where
  "exampleDeployment = \<lparr>
     depName = ''myapp-web'',
     depGeneration = 2,
     depSpecReplicas = Some 3,
     depTemplateLabels = [(''app'', ''myapp'')],
     depTemplateAnnotations = [],
     depObservedGeneration = 2,
     depUpdatedReplicas = 3,
     depUnavailableReplicas = 0,
     depReplicas = 3,
     depConditions = []\<rparr>"

definition exampleObs :: obs where
  "exampleObs = \<lparr>
     o_allNewPodsRunning = (True, None),
     o_selected = Tick,
     o_notReadyPodEvents = Inr [],
     o_get = Inr exampleDeployment\<rparr>"

definition exampleRollout :: rollout where
  "exampleRollout = \<lparr>
     cfgHost = ''tsuru.example.com'',
     overcommitConf = (\<lambda>pool. Some 2),
     deploymentNameForApp = (\<lambda>a p. appName a @ ''-'' @ p),
     headlessServiceNameForApp = (\<lambda>a p. appName a @ ''-'' @ p @ ''-units''),
     labelSetFromMeta = (\<lambda>l a. l @ a),
     ExtendServiceLabels = (\<lambda>l. l),
     SetIsHeadlessService = (\<lambda>l. (''is-headless-service'', ''true'') # l),
     appToken = (\<lambda>a. ''token''),
     LeanContainerCmdsWithExtra = (\<lambda>p i a extra. Inr ([''/bin/sh'', ''-lc''] @ extra)),
     GetImageWebProcessName = (\<lambda>i. Inr ''web''),
     GetImageTsuruYamlData = (\<lambda>i. Inr \<lparr>hcPath = '''', hcScheme = '''', hcMethod = '''',
                                          hcAllowedFailures = 0\<rparr>),
     imageExposedPort = (\<lambda>i. ''''),
     WebProcessDefaultPort = ''8888'',
     DefaultHealthcheckScheme = ''http'',
     Atoi = (\<lambda>s. 8888),
     ToUpper = (\<lambda>s. s),
     ensureNodeContainers = None,
     deploymentsGet = Inl NotFound,
     eventsList = Inr ''42'',
     deploymentsCreate = Inr exampleDeployment,
     deploymentsUpdate = Inr exampleDeployment,
     deploymentsRollback = None,
     servicesCreate = None,
     headlessServicesCreate = Some AlreadyExists,
     generationObs = [],
     convergenceObs = [exampleObs]\<rparr>"

text \<open>A rollout that stalls: the cluster accepts the deployment, no replica is ever updated,
  the progress timeout fires in the first iteration, and the cluster then refuses the
  rollback.\<close>

definition exampleStalledDeployment :: Deployment where
  "exampleStalledDeployment =
    exampleDeployment\<lparr>depUpdatedReplicas := 0, depReplicas := 0\<rparr>"

definition exampleStalledRollout :: rollout where
  "exampleStalledRollout =
    exampleRollout\<lparr>deploymentsCreate := Inr exampleStalledDeployment,
      convergenceObs := [exampleObs\<lparr>o_selected := ProgressTimeout\<rparr>],
      deploymentsRollback := Some (External ''rollback refused'')\<rparr>"

section \<open>The log of each step\<close>

lemma andThen_log:
  "c \<in> set (fst (andThen m f)) \<Longrightarrow>
    c \<in> set (fst m) \<or> (\<exists>x. snd m = Inr x \<and> c \<in> set (fst (f x)))"
  by (auto simp: andThen_def split: prod.splits sum.splits)

lemma deferred_log: "c \<in> set (fst (deferred c' m)) \<Longrightarrow> c = c' \<or> c \<in> set (fst m)"
  by (auto simp: deferred_def split: prod.splits)

lemma ensureAuthSecret_no_pod: "CreatePod pod \<notin> set (fst (ensureAuthSecret w))"
  by (auto simp: ensureAuthSecret_def ok_def Let_def split: option.splits)

lemma getImagePullSecrets_no_pod: "CreatePod pod \<notin> set (fst (getImagePullSecrets w imgs))"
  using ensureAuthSecret_no_pod
  by (auto simp: getImagePullSecrets_def ok_def Let_def dest!: andThen_log)

lemma ensureServiceAccountForApp_no_pod:
  "CreatePod pod \<notin> set (fst (ensureServiceAccountForApp w a))"
  by (auto simp: ensureServiceAccountForApp_def ensureServiceAccount_def Let_def
      split: option.splits)

lemma filteredPodEvents_no_pod: "CreatePod pod \<notin> set (fst (filteredPodEvents w rv n))"
  by (auto simp: filteredPodEvents_def split: option.splits)

lemma createPod_wait_no_pod: "CreatePod pod \<notin> set (fst (createPod_wait w params p))"
  by (auto simp: createPod_wait_def Let_def ok_def filteredPodEvents_no_pod
      dest!: andThen_log deferred_log split: option.splits)

lemma runInspectSidecar_wait_no_pod:
  "CreatePod pod \<notin> set (fst (runInspectSidecar_wait w p))"
  by (auto simp: runInspectSidecar_wait_def Let_def dest!: deferred_log split: option.splits)

text \<open>The only pod that \<open>createPod\<close> sends is the one it builds, and it builds it from the
  parameters it was called with.\<close>

lemma createPod_log:
  "CreatePod pod \<in> set (fst (createPod w params)) \<Longrightarrow>
    \<exists>labels annotations volumes mounts pullSecrets.
      pod = createPod_pod w params labels annotations volumes mounts pullSecrets"
  unfolding createPod_def
  apply (auto simp: fail_def Let_def ensureServiceAccountForApp_no_pod
      getImagePullSecrets_no_pod createPod_wait_no_pod
      dest!: andThen_log split: if_splits sum.splits prod.splits option.splits)
   apply blast+
  done

lemma runInspectSidecar_log:
  "CreatePod pod \<in> set (fst (runInspectSidecar w params)) \<Longrightarrow>
    \<exists>labels annotations pullSecrets.
      pod = runInspectSidecar_pod w params labels annotations pullSecrets"
  unfolding runInspectSidecar_def
  apply (auto simp: fail_def Let_def ensureServiceAccountForApp_no_pod
      getImagePullSecrets_no_pod runInspectSidecar_wait_no_pod
      dest!: andThen_log split: if_splits sum.splits prod.splits option.splits)
   apply blast+
  done

lemma createPod_pod_containers:
  "length (podContainers (createPod_pod w params l a v m s)) = 2 \<and>
   sentinelMount \<in> set (cVolumeMounts (podContainers (createPod_pod w params l a v m s) ! 0)) \<and>
   sentinelMount \<in> set (cVolumeMounts (podContainers (createPod_pod w params l a v m s) ! 1))"
  by (simp add: createPod_pod_def Let_def sentinelMount_def split: prod.splits)

lemma runInspectSidecar_pod_containers:
  "length (podContainers (runInspectSidecar_pod w params l a s)) = 2 \<and>
   sentinelMount \<in> set (cVolumeMounts (podContainers (runInspectSidecar_pod w params l a s) ! 0)) \<and>
   sentinelMount \<in> set (cVolumeMounts (podContainers (runInspectSidecar_pod w params l a s) ! 1))"
  by (simp add: runInspectSidecar_pod_def Let_def sentinelMount_def split: prod.splits)

lemma andThen_logI:
  "snd m = Inr x \<Longrightarrow> c \<in> set (fst (f x)) \<Longrightarrow> c \<in> set (fst (andThen m f))"
  by (cases m; cases "f x") (auto simp: andThen_def)

text \<open>When every step before the creation of the pod succeeds, \<open>createPod\<close> sends the pod it
  builds; likewise \<open>runInspectSidecar\<close>.\<close>

lemma createPod_sends:
  assumes "length (p_cmds params) = 3"
    and "p_destinationImages params \<noteq> []"
    and "snd (ensureServiceAccountForApp w (p_app params)) = Inr ()"
    and "BuildServiceLabels w (p_app params) = Inr labels0"
    and "createVolumesForApp w (p_app params) = Inr (volumes, mounts)"
    and "snd (getImagePullSecrets w [p_sourceImage params, cfgDeploySidecarImage w])
          = Inr pullSecrets"
  shows "CreatePod (createPod_pod w params
            (fst (SplitServiceLabelsAnnotations w labels0))
            (SetBuildImage w (p_destinationImages params ! 0)
               (snd (SplitServiceLabelsAnnotations w labels0)))
            volumes mounts pullSecrets)
          \<in> set (fst (createPod w params))"
proof -
  have sent: "CreatePod pod \<in> set (fst (andThen
      (case podsCreate w of
         None \<Rightarrow> ([CreatePod pod], Inr ())
       | Some e \<Rightarrow> ([CreatePod pod], Inl (WithStack (Api e))))
      (\<lambda>_. createPod_wait w params pod)))" for pod
    by (cases "createPod_wait w params pod") (simp add: andThen_def split: option.splits)
  show ?thesis
    unfolding createPod_def using assms
    apply (simp add: Let_def case_prod_beta)
    apply (rule andThen_logI, assumption)
    apply (rule andThen_logI, assumption)
    apply (simp add: andThen_def split: option.splits prod.splits)
    done
qed

lemma runInspectSidecar_sends:
  assumes "i_destinationImages params \<noteq> []"
    and "snd (ensureServiceAccountForApp w (i_app params)) = Inr ()"
    and "BuildServiceLabels w (i_app params) = Inr labels0"
    and "snd (getImagePullSecrets w [i_sourceImage params, cfgDeploySidecarImage w])
          = Inr pullSecrets"
  shows "CreatePod (runInspectSidecar_pod w params
            (fst (SplitServiceLabelsAnnotations w labels0))
            (SetBuildImage w (i_destinationImages params ! 0)
               (snd (SplitServiceLabelsAnnotations w labels0)))
            pullSecrets)
          \<in> set (fst (runInspectSidecar w params))"
proof -
  have sent: "CreatePod pod \<in> set (fst (andThen
      (case podsCreate w of
         None \<Rightarrow> ([CreatePod pod], Inr ())
       | Some e \<Rightarrow> ([CreatePod pod], Inl (WithStack (Api e))))
      (\<lambda>_. runInspectSidecar_wait w pod)))" for pod
    by (cases "runInspectSidecar_wait w pod") (simp add: andThen_def split: option.splits)
  show ?thesis
    unfolding runInspectSidecar_def using assms
    apply (simp add: Let_def case_prod_beta)
    apply (rule andThen_logI, assumption)
    apply (rule andThen_logI, assumption)
    apply (simp add: andThen_def split: option.splits prod.splits)
    done
qed

lemma example_steps:
  "snd (ensureServiceAccountForApp exampleWorld exampleApp) = Inr ()
   \<and> BuildServiceLabels exampleWorld exampleApp
       = Inr [(''app'', ''myapp''), (''is-build'', ''true'')]
   \<and> createVolumesForApp exampleWorld exampleApp = Inr ([], [])
   \<and> snd (getImagePullSecrets exampleWorld
        [''registry.example.com/tsuru/python'', cfgDeploySidecarImage exampleWorld])
       = Inr [''registry-registry.example.com'']
   \<and> snd (getImagePullSecrets exampleWorld
        [''registry.example.com/tsuru/app-myapp:v2-builder'',
         cfgDeploySidecarImage exampleWorld])
       = Inr [''registry-registry.example.com'']"
  by (simp add: exampleWorld_def exampleApp_def ensureServiceAccountForApp_def
      ensureServiceAccount_def getImagePullSecrets_def ensureAuthSecret_def imgDomain_def
      andThen_def ok_def Let_def)

section \<open>The sidecar pipeline\<close>

text \<open>
  Claim C5. Whenever the command list given to \<open>createPod\<close> does not have exactly three
  elements, \<open>createPod\<close> returns the error for an unexpected command list, and its log is
  empty: no request at all was sent to the cluster, in particular no creation of a pod.
\<close>

theorem createPod_unexpected_cmds:
  "length (p_cmds params) \<noteq> 3 \<Longrightarrow>
    createPod w params = ([], Inl (UnexpectedCmds (p_cmds params)))"
  by (simp add: createPod_def fail_def)

text \<open>A build whose command list has two elements: the pipeline fails, nothing is sent.\<close>

theorem createPod_unexpected_cmds_witness:
  "createPod exampleWorld (exampleParams\<lparr>p_cmds := [''download'', ''build'']\<rparr>)
    = ([], Inl (UnexpectedCmds [''download'', ''build'']))"
  using createPod_unexpected_cmds
    [of "exampleParams\<lparr>p_cmds := [''download'', ''build'']\<rparr>" exampleWorld]
  by simp

text \<open>
  Claim C6. Every pod that \<open>createPod\<close> or \<open>runInspectSidecar\<close> sends to the cluster has
  exactly two containers, and both of them mount the scratch volume \<open>intercontainer\<close> at the
  same path, \<open>/tmp/intercontainer\<close>, under which the sentinel file lies. And both pipelines do
  send such a pod: \<open>createPod\<close> whenever its command list has three elements, its list of
  destination images is not empty, and the service account, the labels, the volumes and the
  pull secrets are obtained; \<open>runInspectSidecar\<close> whenever its list of destination images is
  not empty and the service account, the labels and the pull secrets are obtained.
\<close>

theorem pod_two_containers_same_sentinel:
  "(CreatePod pod \<in> set (fst (createPod w params))
      \<or> CreatePod pod \<in> set (fst (runInspectSidecar w iparams)) \<longrightarrow>
     length (podContainers pod) = 2 \<and>
     sentinelMount \<in> set (cVolumeMounts (podContainers pod ! 0)) \<and>
     sentinelMount \<in> set (cVolumeMounts (podContainers pod ! 1)))
   \<and> (length (p_cmds params) = 3 \<and> p_destinationImages params \<noteq> []
       \<and> snd (ensureServiceAccountForApp w (p_app params)) = Inr ()
       \<and> BuildServiceLabels w (p_app params) = Inr labels0
       \<and> createVolumesForApp w (p_app params) = Inr (volumes, mounts)
       \<and> snd (getImagePullSecrets w [p_sourceImage params, cfgDeploySidecarImage w])
           = Inr pullSecrets \<longrightarrow>
     (\<exists>pod'. CreatePod pod' \<in> set (fst (createPod w params)) \<and>
        podName pod' = p_podName params \<and>
        length (podContainers pod') = 2 \<and>
        sentinelMount \<in> set (cVolumeMounts (podContainers pod' ! 0)) \<and>
        sentinelMount \<in> set (cVolumeMounts (podContainers pod' ! 1))))
   \<and> (i_destinationImages iparams \<noteq> []
       \<and> snd (ensureServiceAccountForApp w (i_app iparams)) = Inr ()
       \<and> BuildServiceLabels w (i_app iparams) = Inr ilabels0
       \<and> snd (getImagePullSecrets w [i_sourceImage iparams, cfgDeploySidecarImage w])
           = Inr ipullSecrets \<longrightarrow>
     (\<exists>pod'. CreatePod pod' \<in> set (fst (runInspectSidecar w iparams)) \<and>
        podName pod' = i_podName iparams \<and>
        length (podContainers pod') = 2 \<and>
        sentinelMount \<in> set (cVolumeMounts (podContainers pod' ! 0)) \<and>
        sentinelMount \<in> set (cVolumeMounts (podContainers pod' ! 1))))"
proof -
  have safety: "CreatePod pod \<in> set (fst (createPod w params))
      \<or> CreatePod pod \<in> set (fst (runInspectSidecar w iparams)) \<longrightarrow>
     length (podContainers pod) = 2 \<and>
     sentinelMount \<in> set (cVolumeMounts (podContainers pod ! 0)) \<and>
     sentinelMount \<in> set (cVolumeMounts (podContainers pod ! 1))"
    using createPod_pod_containers runInspectSidecar_pod_containers
    by (auto dest!: createPod_log runInspectSidecar_log)
  have build: "length (p_cmds params) = 3 \<and> p_destinationImages params \<noteq> []
       \<and> snd (ensureServiceAccountForApp w (p_app params)) = Inr ()
       \<and> BuildServiceLabels w (p_app params) = Inr labels0
       \<and> createVolumesForApp w (p_app params) = Inr (volumes, mounts)
       \<and> snd (getImagePullSecrets w [p_sourceImage params, cfgDeploySidecarImage w])
           = Inr pullSecrets \<longrightarrow>
     (\<exists>pod'. CreatePod pod' \<in> set (fst (createPod w params)) \<and>
        podName pod' = p_podName params \<and>
        length (podContainers pod') = 2 \<and>
        sentinelMount \<in> set (cVolumeMounts (podContainers pod' ! 0)) \<and>
        sentinelMount \<in> set (cVolumeMounts (podContainers pod' ! 1)))"
  proof
    assume h: "length (p_cmds params) = 3 \<and> p_destinationImages params \<noteq> []
       \<and> snd (ensureServiceAccountForApp w (p_app params)) = Inr ()
       \<and> BuildServiceLabels w (p_app params) = Inr labels0
       \<and> createVolumesForApp w (p_app params) = Inr (volumes, mounts)
       \<and> snd (getImagePullSecrets w [p_sourceImage params, cfgDeploySidecarImage w])
           = Inr pullSecrets"
    let ?pod = "createPod_pod w params
            (fst (SplitServiceLabelsAnnotations w labels0))
            (SetBuildImage w (p_destinationImages params ! 0)
               (snd (SplitServiceLabelsAnnotations w labels0)))
            volumes mounts pullSecrets"
    from h have sent: "CreatePod ?pod \<in> set (fst (createPod w params))"
      by (intro createPod_sends) simp_all
    have name: "podName ?pod = p_podName params"
      by (simp add: createPod_pod_def Let_def split: prod.splits)
    from sent name createPod_pod_containers
    show "\<exists>pod'. CreatePod pod' \<in> set (fst (createPod w params)) \<and>
        podName pod' = p_podName params \<and>
        length (podContainers pod') = 2 \<and>
        sentinelMount \<in> set (cVolumeMounts (podContainers pod' ! 0)) \<and>
        sentinelMount \<in> set (cVolumeMounts (podContainers pod' ! 1))"
      by blast
  qed
  have inspect: "i_destinationImages iparams \<noteq> []
       \<and> snd (ensureServiceAccountForApp w (i_app iparams)) = Inr ()
       \<and> BuildServiceLabels w (i_app iparams) = Inr ilabels0
       \<and> snd (getImagePullSecrets w [i_sourceImage iparams, cfgDeploySidecarImage w])
           = Inr ipullSecrets \<longrightarrow>
     (\<exists>pod'. CreatePod pod' \<in> set (fst (runInspectSidecar w iparams)) \<and>
        podName pod' = i_podName iparams \<and>
        length (podContainers pod') = 2 \<and>
        sentinelMount \<in> set (cVolumeMounts (podContainers pod' ! 0)) \<and>
        sentinelMount \<in> set (cVolumeMounts (podContainers pod' ! 1)))"
  proof
    assume h: "i_destinationImages iparams \<noteq> []
       \<and> snd (ensureServiceAccountForApp w (i_app iparams)) = Inr ()
       \<and> BuildServiceLabels w (i_app iparams) = Inr ilabels0
       \<and> snd (getImagePullSecrets w [i_sourceImage iparams, cfgDeploySidecarImage w])
           = Inr ipullSecrets"
    let ?pod = "runInspectSidecar_pod w iparams
            (fst (SplitServiceLabelsAnnotations w ilabels0))
            (SetBuildImage w (i_destinationImages iparams ! 0)
               (snd (SplitServiceLabelsAnnotations w ilabels0)))
            ipullSecrets"
    from h have sent: "CreatePod ?pod \<in> set (fst (runInspectSidecar w iparams))"
      by (intro runInspectSidecar_sends) simp_all
    have name: "podName ?pod = i_podName iparams"
      by (simp add: runInspectSidecar_pod_def Let_def split: prod.splits)
    from sent name runInspectSidecar_pod_containers
    show "\<exists>pod'. CreatePod pod' \<in> set (fst (runInspectSidecar w iparams)) \<and>
        podName pod' = i_podName iparams \<and>
        length (podContainers pod') = 2 \<and>
        sentinelMount \<in> set (cVolumeMounts (podContainers pod' ! 0)) \<and>
        sentinelMount \<in> set (cVolumeMounts (podContainers pod' ! 1))"
      by blast
  qed
  show ?thesis
    by (rule conjI [OF safety conjI [OF build inspect]])
qed

text \<open>The build of the example and the inspection of the example each send a pod, named as
  asked, with two containers that both mount the sentinel volume at \<open>/tmp/intercontainer\<close>.\<close>

theorem pod_two_containers_same_sentinel_witness:
  "(\<exists>pod'. CreatePod pod' \<in> set (fst (createPod exampleWorld exampleParams)) \<and>
        podName pod' = ''myapp-v2-build'' \<and>
        length (podContainers pod') = 2 \<and>
        sentinelMount \<in> set (cVolumeMounts (podContainers pod' ! 0)) \<and>
        sentinelMount \<in> set (cVolumeMounts (podContainers pod' ! 1)))
   \<and> (\<exists>pod'. CreatePod pod' \<in> set (fst (runInspectSidecar exampleWorld exampleInspect)) \<and>
        podName pod' = ''myapp-v2-deploy'' \<and>
        length (podContainers pod') = 2 \<and>
        sentinelMount \<in> set (cVolumeMounts (podContainers pod' ! 0)) \<and>
        sentinelMount \<in> set (cVolumeMounts (podContainers pod' ! 1)))"
proof -
  have build: "length (p_cmds exampleParams) = 3 \<and> p_destinationImages exampleParams \<noteq> []
       \<and> snd (ensureServiceAccountForApp exampleWorld (p_app exampleParams)) = Inr ()
       \<and> BuildServiceLabels exampleWorld (p_app exampleParams)
           = Inr [(''app'', ''myapp''), (''is-build'', ''true'')]
       \<and> createVolumesForApp exampleWorld (p_app exampleParams) = Inr ([], [])
       \<and> snd (getImagePullSecrets exampleWorld
            [p_sourceImage exampleParams, cfgDeploySidecarImage exampleWorld])
           = Inr [''registry-registry.example.com'']"
    using example_steps by (simp add: exampleParams_def)
  have inspect: "i_destinationImages exampleInspect \<noteq> []
       \<and> snd (ensureServiceAccountForApp exampleWorld (i_app exampleInspect)) = Inr ()
       \<and> BuildServiceLabels exampleWorld (i_app exampleInspect)
           = Inr [(''app'', ''myapp''), (''is-build'', ''true'')]
       \<and> snd (getImagePullSecrets exampleWorld
            [i_sourceImage exampleInspect, cfgDeploySidecarImage exampleWorld])
           = Inr [''registry-registry.example.com'']"
    using example_steps by (simp add: exampleInspect_def)
  note inst = pod_two_containers_same_sentinel
    [where w = exampleWorld and params = exampleParams and iparams = exampleInspect]
  from inst [THEN conjunct2, THEN conjunct1, rule_format, OF build]
  have first: "\<exists>pod'. CreatePod pod' \<in> set (fst (createPod exampleWorld exampleParams)) \<and>
        podName pod' = ''myapp-v2-build'' \<and>
        length (podContainers pod') = 2 \<and>
        sentinelMount \<in> set (cVolumeMounts (podContainers pod' ! 0)) \<and>
        sentinelMount \<in> set (cVolumeMounts (podContainers pod' ! 1))"
    by (simp add: exampleParams_def)
  from inst [THEN conjunct2, THEN conjunct2, rule_format, OF inspect]
  have second: "\<exists>pod'. CreatePod pod' \<in> set (fst (runInspectSidecar exampleWorld exampleInspect)) \<and>
        podName pod' = ''myapp-v2-deploy'' \<and>
        length (podContainers pod') = 2 \<and>
        sentinelMount \<in> set (cVolumeMounts (podContainers pod' ! 0)) \<and>
        sentinelMount \<in> set (cVolumeMounts (podContainers pod' ! 1))"
    by (simp add: exampleInspect_def)
  from first second show ?thesis
    by (rule conjI)
qed

lemma createPod_pod_destination_images:
  "cEnv (podContainers (createPod_pod w params l a v m s) ! 1) ! 1 =
    \<lparr>envName = ''DEPLOYAGENT_DESTINATION_IMAGES'',
     envValue = Join (p_destinationImages params) '',''\<rparr>"
  by (simp add: createPod_pod_def Let_def split: prod.splits)

lemma runInspectSidecar_pod_destination_images:
  "cEnv (podContainers (runInspectSidecar_pod w params l a s) ! 1) ! 1 =
    \<lparr>envName = ''DEPLOYAGENT_DESTINATION_IMAGES'',
     envValue = Join (i_destinationImages params) '',''\<rparr>"
  by (simp add: runInspectSidecar_pod_def Let_def split: prod.splits)

lemma createDeployPod_log:
  "CreatePod pod \<in> set (fst (createDeployPod w params)) \<Longrightarrow>
    \<exists>params'. CreatePod pod \<in> set (fst (createPod w params')) \<and>
      p_destinationImages params' = withLatest (SplitImageName w) (p_destinationImages params)"
  unfolding createDeployPod_def withLatest_def
  by (auto simp: fail_def Let_def split: if_splits sum.splits prod.splits)

lemma imageTagAndPush_fst:
  "fst (imageTagAndPush w a oldImage newImage) =
    (case deployPodNameForApp w a of
       Inl e \<Rightarrow> []
     | Inr name \<Rightarrow>
         (case BuildServiceLabels w a of
            Inl e \<Rightarrow> []
          | Inr labels \<Rightarrow>
              fst (runInspectSidecar w
                \<lparr>i_sourceImage = oldImage, i_podName = name,
                 i_destinationImages = withLatest (SplitImageName w) [newImage],
                 i_labels = labels, i_app = a\<rparr>)))"
  unfolding imageTagAndPush_def withLatest_def
  by (simp add: fail_def Let_def split: sum.splits prod.splits)

lemma imageTagAndPush_log:
  "CreatePod pod \<in> set (fst (imageTagAndPush w a oldImage newImage)) \<Longrightarrow>
    \<exists>params'. CreatePod pod \<in> set (fst (runInspectSidecar w params')) \<and>
      i_destinationImages params' = withLatest (SplitImageName w) [newImage]"
  unfolding imageTagAndPush_fst
  apply (clarsimp split: sum.splits)
  apply (rule exI, erule conjI, simp)
  done

lemma createDeployPod_createPod:
  "p_destinationImages params \<noteq> [] \<Longrightarrow>
   (if p_podName params = '''' then deployPodNameForApp w (p_app params)
    else Inr (p_podName params)) = Inr name \<Longrightarrow>
    createDeployPod w params =
      createPod w (params\<lparr>p_podName := name, p_cmds := DeployCmds w (p_app params),
        p_destinationImages :=
          withLatest (SplitImageName w) (p_destinationImages params)\<rparr>)"
  unfolding createDeployPod_def withLatest_def
  by (auto simp: Let_def split: prod.splits if_splits)

lemma withLatest_not_empty: "images \<noteq> [] \<Longrightarrow> withLatest split images \<noteq> []"
  by (simp add: withLatest_def)

text \<open>
  Claim C10. \<open>createDeployPod\<close> and \<open>imageTagAndPush\<close> hand over the list of destination images
  extended with \<open>repository:latest\<close> for the repository of the first image when the tag of
  that image is not \<open>latest\<close>, and the list unchanged when it is (\<open>withLatest\<close>): in every pod
  that either function sends to the cluster, the sidecar container receives exactly that
  list, joined by commas, in the variable \<open>DEPLOYAGENT_DESTINATION_IMAGES\<close>; and each
  function does send such a pod whenever the steps before the creation of the pod succeed.
\<close>

theorem destination_images_with_latest:
  "(CreatePod pod \<in> set (fst (createDeployPod w params)) \<longrightarrow>
      cEnv (podContainers pod ! 1) ! 1 =
        \<lparr>envName = ''DEPLOYAGENT_DESTINATION_IMAGES'',
         envValue = Join (withLatest (SplitImageName w) (p_destinationImages params)) '',''\<rparr>)
   \<and> (CreatePod pod \<in> set (fst (imageTagAndPush w a oldImage newImage)) \<longrightarrow>
      cEnv (podContainers pod ! 1) ! 1 =
        \<lparr>envName = ''DEPLOYAGENT_DESTINATION_IMAGES'',
         envValue = Join (withLatest (SplitImageName w) [newImage]) '',''\<rparr>)
   \<and> (p_destinationImages params \<noteq> []
       \<and> (if p_podName params = '''' then deployPodNameForApp w (p_app params)
           else Inr (p_podName params)) = Inr name
       \<and> length (DeployCmds w (p_app params)) = 3
       \<and> snd (ensureServiceAccountForApp w (p_app params)) = Inr ()
       \<and> BuildServiceLabels w (p_app params) = Inr labels0
       \<and> createVolumesForApp w (p_app params) = Inr (volumes, mounts)
       \<and> snd (getImagePullSecrets w [p_sourceImage params, cfgDeploySidecarImage w])
           = Inr pullSecrets \<longrightarrow>
      (\<exists>pod'. CreatePod pod' \<in> set (fst (createDeployPod w params)) \<and>
         cEnv (podContainers pod' ! 1) ! 1 =
           \<lparr>envName = ''DEPLOYAGENT_DESTINATION_IMAGES'',
            envValue =
              Join (withLatest (SplitImageName w) (p_destinationImages params)) '',''\<rparr>))
   \<and> (deployPodNameForApp w a = Inr iname
       \<and> snd (ensureServiceAccountForApp w a) = Inr ()
       \<and> BuildServiceLabels w a = Inr ilabels0
       \<and> snd (getImagePullSecrets w [oldImage, cfgDeploySidecarImage w]) = Inr ipullSecrets
       \<longrightarrow>
      (\<exists>pod'. CreatePod pod' \<in> set (fst (imageTagAndPush w a oldImage newImage)) \<and>
         cEnv (podContainers pod' ! 1) ! 1 =
           \<lparr>envName = ''DEPLOYAGENT_DESTINATION_IMAGES'',
            envValue = Join (withLatest (SplitImageName w) [newImage]) '',''\<rparr>))"
proof -
  have deploy_safe: "CreatePod p \<in> set (fst (createDeployPod w params)) \<longrightarrow>
      cEnv (podContainers p ! 1) ! 1 =
        \<lparr>envName = ''DEPLOYAGENT_DESTINATION_IMAGES'',
         envValue = Join (withLatest (SplitImageName w) (p_destinationImages params)) '',''\<rparr>"
    for p
  proof
    assume "CreatePod p \<in> set (fst (createDeployPod w params))"
    then obtain params' l an v m s where
      "p = createPod_pod w params' l an v m s"
      "p_destinationImages params' = withLatest (SplitImageName w) (p_destinationImages params)"
      by (blast dest: createDeployPod_log createPod_log)
    then show "cEnv (podContainers p ! 1) ! 1 =
        \<lparr>envName = ''DEPLOYAGENT_DESTINATION_IMAGES'',
         envValue = Join (withLatest (SplitImageName w) (p_destinationImages params)) '',''\<rparr>"
      using createPod_pod_destination_images [of w params' l an v m s] by simp
  qed
  have inspect_safe: "CreatePod p \<in> set (fst (imageTagAndPush w a oldImage newImage)) \<longrightarrow>
      cEnv (podContainers p ! 1) ! 1 =
        \<lparr>envName = ''DEPLOYAGENT_DESTINATION_IMAGES'',
         envValue = Join (withLatest (SplitImageName w) [newImage]) '',''\<rparr>"
    for p
  proof
    assume "CreatePod p \<in> set (fst (imageTagAndPush w a oldImage newImage))"
    then obtain params' l an s where
      "p = runInspectSidecar_pod w params' l an s"
      "i_destinationImages params' = withLatest (SplitImageName w) [newImage]"
      by (blast dest: imageTagAndPush_log runInspectSidecar_log)
    then show "cEnv (podContainers p ! 1) ! 1 =
        \<lparr>envName = ''DEPLOYAGENT_DESTINATION_IMAGES'',
         envValue = Join (withLatest (SplitImageName w) [newImage]) '',''\<rparr>"
      using runInspectSidecar_pod_destination_images [of w params' l an s] by simp
  qed
  have deploy_sends: "p_destinationImages params \<noteq> []
       \<and> (if p_podName params = '''' then deployPodNameForApp w (p_app params)
           else Inr (p_podName params)) = Inr name
       \<and> length (DeployCmds w (p_app params)) = 3
       \<and> snd (ensureServiceAccountForApp w (p_app params)) = Inr ()
       \<and> BuildServiceLabels w (p_app params) = Inr labels0
       \<and> createVolumesForApp w (p_app params) = Inr (volumes, mounts)
       \<and> snd (getImagePullSecrets w [p_sourceImage params, cfgDeploySidecarImage w])
           = Inr pullSecrets \<longrightarrow>
      (\<exists>pod'. CreatePod pod' \<in> set (fst (createDeployPod w params)) \<and>
         cEnv (podContainers pod' ! 1) ! 1 =
           \<lparr>envName = ''DEPLOYAGENT_DESTINATION_IMAGES'',
            envValue =
              Join (withLatest (SplitImageName w) (p_destinationImages params)) '',''\<rparr>)"
  proof
    assume h: "p_destinationImages params \<noteq> []
       \<and> (if p_podName params = '''' then deployPodNameForApp w (p_app params)
           else Inr (p_podName params)) = Inr name
       \<and> length (DeployCmds w (p_app params)) = 3
       \<and> snd (ensureServiceAccountForApp w (p_app params)) = Inr ()
       \<and> BuildServiceLabels w (p_app params) = Inr labels0
       \<and> createVolumesForApp w (p_app params) = Inr (volumes, mounts)
       \<and> snd (getImagePullSecrets w [p_sourceImage params, cfgDeploySidecarImage w])
           = Inr pullSecrets"
    let ?params = "params\<lparr>p_podName := name, p_cmds := DeployCmds w (p_app params),
        p_destinationImages :=
          withLatest (SplitImageName w) (p_destinationImages params)\<rparr>"
    let ?pod = "createPod_pod w ?params
            (fst (SplitServiceLabelsAnnotations w labels0))
            (SetBuildImage w (p_destinationImages ?params ! 0)
               (snd (SplitServiceLabelsAnnotations w labels0)))
            volumes mounts pullSecrets"
    from h have eq: "createDeployPod w params = createPod w ?params"
      by (intro createDeployPod_createPod) simp_all
    from h have "CreatePod ?pod \<in> set (fst (createPod w ?params))"
      by (intro createPod_sends) (simp_all add: withLatest_not_empty)
    with eq have sent: "CreatePod ?pod \<in> set (fst (createDeployPod w params))"
      by simp
    with deploy_safe [of ?pod]
    show "\<exists>pod'. CreatePod pod' \<in> set (fst (createDeployPod w params)) \<and>
         cEnv (podContainers pod' ! 1) ! 1 =
           \<lparr>envName = ''DEPLOYAGENT_DESTINATION_IMAGES'',
            envValue =
              Join (withLatest (SplitImageName w) (p_destinationImages params)) '',''\<rparr>"
      by blast
  qed
  have inspect_sends: "deployPodNameForApp w a = Inr iname
       \<and> snd (ensureServiceAccountForApp w a) = Inr ()
       \<and> BuildServiceLabels w a = Inr ilabels0
       \<and> snd (getImagePullSecrets w [oldImage, cfgDeploySidecarImage w]) = Inr ipullSecrets
       \<longrightarrow>
      (\<exists>pod'. CreatePod pod' \<in> set (fst (imageTagAndPush w a oldImage newImage)) \<and>
         cEnv (podContainers pod' ! 1) ! 1 =
           \<lparr>envName = ''DEPLOYAGENT_DESTINATION_IMAGES'',
            envValue = Join (withLatest (SplitImageName w) [newImage]) '',''\<rparr>)"
  proof
    assume h: "deployPodNameForApp w a = Inr iname
       \<and> snd (ensureServiceAccountForApp w a) = Inr ()
       \<and> BuildServiceLabels w a = Inr ilabels0
       \<and> snd (getImagePullSecrets w [oldImage, cfgDeploySidecarImage w]) = Inr ipullSecrets"
    let ?params = "\<lparr>i_sourceImage = oldImage, i_podName = iname,
        i_destinationImages = withLatest (SplitImageName w) [newImage],
        i_labels = ilabels0, i_app = a\<rparr>"
    let ?pod = "runInspectSidecar_pod w ?params
            (fst (SplitServiceLabelsAnnotations w ilabels0))
            (SetBuildImage w (i_destinationImages ?params ! 0)
               (snd (SplitServiceLabelsAnnotations w ilabels0)))
            ipullSecrets"
    from h have "CreatePod ?pod \<in> set (fst (runInspectSidecar w ?params))"
      by (intro runInspectSidecar_sends) (simp_all add: withLatest_not_empty)
    with h have sent: "CreatePod ?pod \<in> set (fst (imageTagAndPush w a oldImage newImage))"
      by (simp add: imageTagAndPush_fst)
    with inspect_safe [of ?pod]
    show "\<exists>pod'. CreatePod pod' \<in> set (fst (imageTagAndPush w a oldImage newImage)) \<and>
         cEnv (podContainers pod' ! 1) ! 1 =
           \<lparr>envName = ''DEPLOYAGENT_DESTINATION_IMAGES'',
            envValue = Join (withLatest (SplitImageName w) [newImage]) '',''\<rparr>"
      by blast
  qed
  show ?thesis
    by (rule conjI [OF deploy_safe conjI [OF inspect_safe conjI [OF deploy_sends inspect_sends]]])
qed

text \<open>A deploy pod and an inspect pod for the image \<open>app-myapp:v2\<close> receive the list extended
  with \<open>app-myapp:latest\<close>; a deploy pod and an inspect pod for \<open>app-myapp:latest\<close> receive
  that image alone.\<close>

theorem destination_images_with_latest_witness:
  "(\<exists>pod'. CreatePod pod' \<in> set (fst (createDeployPod exampleWorld exampleParams)) \<and>
      cEnv (podContainers pod' ! 1) ! 1 =
        \<lparr>envName = ''DEPLOYAGENT_DESTINATION_IMAGES'',
         envValue = ''registry.example.com/tsuru/app-myapp:v2,registry.example.com/tsuru/app-myapp:latest''\<rparr>)
   \<and> (\<exists>pod'. CreatePod pod' \<in> set (fst (createDeployPod exampleWorld
          (exampleParams\<lparr>p_destinationImages :=
             [''registry.example.com/tsuru/app-myapp:latest'']\<rparr>))) \<and>
      cEnv (podContainers pod' ! 1) ! 1 =
        \<lparr>envName = ''DEPLOYAGENT_DESTINATION_IMAGES'',
         envValue = ''registry.example.com/tsuru/app-myapp:latest''\<rparr>)
   \<and> (\<exists>pod'. CreatePod pod' \<in> set (fst (imageTagAndPush exampleWorld exampleApp
          ''registry.example.com/tsuru/app-myapp:v2-builder''
          ''registry.example.com/tsuru/app-myapp:v2'')) \<and>
      cEnv (podContainers pod' ! 1) ! 1 =
        \<lparr>envName = ''DEPLOYAGENT_DESTINATION_IMAGES'',
         envValue = ''registry.example.com/tsuru/app-myapp:v2,registry.example.com/tsuru/app-myapp:latest''\<rparr>)
   \<and> (\<exists>pod'. CreatePod pod' \<in> set (fst (imageTagAndPush exampleWorld exampleApp
          ''registry.example.com/tsuru/app-myapp:v2-builder''
          ''registry.example.com/tsuru/app-myapp:latest'')) \<and>
      cEnv (podContainers pod' ! 1) ! 1 =
        \<lparr>envName = ''DEPLOYAGENT_DESTINATION_IMAGES'',
         envValue = ''registry.example.com/tsuru/app-myapp:latest''\<rparr>)"
proof -
  have split_v2: "SplitImageName exampleWorld ''registry.example.com/tsuru/app-myapp:v2''
      = (''registry.example.com/tsuru/app-myapp'', ''v2'')"
    by (simp add: exampleWorld_def)
  have split_latest: "SplitImageName exampleWorld ''registry.example.com/tsuru/app-myapp:latest''
      = (''registry.example.com/tsuru/app-myapp'', ''latest'')"
    by (simp add: exampleWorld_def)
  have names: "deployPodNameForApp exampleWorld exampleApp = Inr ''myapp-deploy''
      \<and> length (DeployCmds exampleWorld exampleApp) = 3"
    by (simp add: exampleWorld_def exampleApp_def)
  have deploy: "p_destinationImages (exampleParams\<lparr>p_destinationImages := images\<rparr>) \<noteq> []
       \<and> (if p_podName (exampleParams\<lparr>p_destinationImages := images\<rparr>) = ''''
           then deployPodNameForApp exampleWorld
             (p_app (exampleParams\<lparr>p_destinationImages := images\<rparr>))
           else Inr (p_podName (exampleParams\<lparr>p_destinationImages := images\<rparr>)))
          = Inr ''myapp-v2-build''
       \<and> length (DeployCmds exampleWorld
            (p_app (exampleParams\<lparr>p_destinationImages := images\<rparr>))) = 3
       \<and> snd (ensureServiceAccountForApp exampleWorld
            (p_app (exampleParams\<lparr>p_destinationImages := images\<rparr>))) = Inr ()
       \<and> BuildServiceLabels exampleWorld
            (p_app (exampleParams\<lparr>p_destinationImages := images\<rparr>))
           = Inr [(''app'', ''myapp''), (''is-build'', ''true'')]
       \<and> createVolumesForApp exampleWorld
            (p_app (exampleParams\<lparr>p_destinationImages := images\<rparr>)) = Inr ([], [])
       \<and> snd (getImagePullSecrets exampleWorld
            [p_sourceImage (exampleParams\<lparr>p_destinationImages := images\<rparr>),
             cfgDeploySidecarImage exampleWorld])
           = Inr [''registry-registry.example.com'']"
    if "images \<noteq> []" for images
    using that example_steps names by (simp add: exampleParams_def)
  have inspect: "deployPodNameForApp exampleWorld exampleApp = Inr ''myapp-deploy''
       \<and> snd (ensureServiceAccountForApp exampleWorld exampleApp) = Inr ()
       \<and> BuildServiceLabels exampleWorld exampleApp
           = Inr [(''app'', ''myapp''), (''is-build'', ''true'')]
       \<and> snd (getImagePullSecrets exampleWorld
            [''registry.example.com/tsuru/app-myapp:v2-builder'',
             cfgDeploySidecarImage exampleWorld])
           = Inr [''registry-registry.example.com'']"
    using example_steps names by simp
  from destination_images_with_latest
    [where w = exampleWorld
       and params = "exampleParams\<lparr>p_destinationImages :=
             [''registry.example.com/tsuru/app-myapp:v2'']\<rparr>",
     THEN conjunct2, THEN conjunct2, THEN conjunct1, rule_format, OF deploy]
  have first: "\<exists>pod'. CreatePod pod' \<in> set (fst (createDeployPod exampleWorld exampleParams)) \<and>
      cEnv (podContainers pod' ! 1) ! 1 =
        \<lparr>envName = ''DEPLOYAGENT_DESTINATION_IMAGES'',
         envValue = ''registry.example.com/tsuru/app-myapp:v2,registry.example.com/tsuru/app-myapp:latest''\<rparr>"
    by (simp add: withLatest_def split_v2 exampleParams_def)
  from destination_images_with_latest
    [where w = exampleWorld
       and params = "exampleParams\<lparr>p_destinationImages :=
             [''registry.example.com/tsuru/app-myapp:latest'']\<rparr>",
     THEN conjunct2, THEN conjunct2, THEN conjunct1, rule_format, OF deploy]
  have second: "\<exists>pod'. CreatePod pod' \<in> set (fst (createDeployPod exampleWorld
          (exampleParams\<lparr>p_destinationImages :=
             [''registry.example.com/tsuru/app-myapp:latest'']\<rparr>))) \<and>
      cEnv (podContainers pod' ! 1) ! 1 =
        \<lparr>envName = ''DEPLOYAGENT_DESTINATION_IMAGES'',
         envValue = ''registry.example.com/tsuru/app-myapp:latest''\<rparr>"
    by (simp add: withLatest_def split_latest)
  from destination_images_with_latest
    [where w = exampleWorld and a = exampleApp
       and oldImage = "''registry.example.com/tsuru/app-myapp:v2-builder''"
       and newImage = "''registry.example.com/tsuru/app-myapp:v2''",
     THEN conjunct2, THEN conjunct2, THEN conjunct2, rule_format, OF inspect]
  have third: "\<exists>pod'. CreatePod pod' \<in> set (fst (imageTagAndPush exampleWorld exampleApp
          ''registry.example.com/tsuru/app-myapp:v2-builder''
          ''registry.example.com/tsuru/app-myapp:v2'')) \<and>
      cEnv (podContainers pod' ! 1) ! 1 =
        \<lparr>envName = ''DEPLOYAGENT_DESTINATION_IMAGES'',
         envValue = ''registry.example.com/tsuru/app-myapp:v2,registry.example.com/tsuru/app-myapp:latest''\<rparr>"
    by (simp add: withLatest_def split_v2)
  from destination_images_with_latest
    [where w = exampleWorld and a = exampleApp
       and oldImage = "''registry.example.com/tsuru/app-myapp:v2-builder''"
       and newImage = "''registry.example.com/tsuru/app-myapp:latest''",
     THEN conjunct2, THEN conjunct2, THEN conjunct2, rule_format, OF inspect]
  have fourth: "\<exists>pod'. CreatePod pod' \<in> set (fst (imageTagAndPush exampleWorld exampleApp
          ''registry.example.com/tsuru/app-myapp:v2-builder''
          ''registry.example.com/tsuru/app-myapp:latest'')) \<and>
      cEnv (podContainers pod' ! 1) ! 1 =
        \<lparr>envName = ''DEPLOYAGENT_DESTINATION_IMAGES'',
         envValue = ''registry.example.com/tsuru/app-myapp:latest''\<rparr>"
    by (simp add: withLatest_def split_latest)
  show ?thesis
    by (rule conjI [OF first conjI [OF second conjI [OF third fourth]]])
qed

section \<open>Labels of the current deployment\<close>

text \<open>
  Claim C9. When the deployment of the application and process does not exist, that is when
  the cluster answers the read with a not-found error, \<open>CurrentLabels\<close> returns nil labels
  and a nil error; when the cluster answers with any other error, \<open>CurrentLabels\<close> returns
  that error (with a stack attached) and no labels.
\<close>

theorem CurrentLabels_absent_or_error:
  "(deploymentsGet d = Inl NotFound \<longrightarrow>
      CurrentLabels d a process =
        ([GetDeployment (deploymentNameForApp d a process)], Inr None))
   \<and> (deploymentsGet d = Inl e \<and> e \<noteq> NotFound \<longrightarrow>
      CurrentLabels d a process =
        ([GetDeployment (deploymentNameForApp d a process)], Inl (WithStack (Api e))))"
  by (cases e) (simp_all add: CurrentLabels_def Let_def)

theorem CurrentLabels_absent_or_error_witness:
  "CurrentLabels exampleRollout exampleApp ''web'' = ([GetDeployment ''myapp-web''], Inr None)
   \<and> CurrentLabels (exampleRollout\<lparr>deploymentsGet := Inl (ApiFailure ''forbidden'')\<rparr>)
        exampleApp ''web''
      = ([GetDeployment ''myapp-web''], Inl (WithStack (Api (ApiFailure ''forbidden''))))"
proof -
  have absent: "deploymentsGet exampleRollout = Inl NotFound"
    by (simp add: exampleRollout_def)
  have failing:
    "deploymentsGet (exampleRollout\<lparr>deploymentsGet := Inl (ApiFailure ''forbidden'')\<rparr>)
       = Inl (ApiFailure ''forbidden'') \<and> ApiFailure ''forbidden'' \<noteq> NotFound"
    by simp
  from CurrentLabels_absent_or_error [where d = exampleRollout and a = exampleApp
      and process = "''web''", THEN conjunct1, rule_format, OF absent]
  have first: "CurrentLabels exampleRollout exampleApp ''web''
      = ([GetDeployment ''myapp-web''], Inr None)"
    by (simp add: exampleRollout_def exampleApp_def)
  from CurrentLabels_absent_or_error
      [where d = "exampleRollout\<lparr>deploymentsGet := Inl (ApiFailure ''forbidden'')\<rparr>"
        and e = "ApiFailure ''forbidden''" and a = exampleApp and process = "''web''",
        THEN conjunct2, rule_format, OF failing]
  have second:
    "CurrentLabels (exampleRollout\<lparr>deploymentsGet := Inl (ApiFailure ''forbidden'')\<rparr>)
        exampleApp ''web''
      = ([GetDeployment ''myapp-web''], Inl (WithStack (Api (ApiFailure ''forbidden''))))"
    by (simp add: exampleRollout_def exampleApp_def)
  from first second show ?thesis by (rule conjI)
qed

section \<open>Pull secrets\<close>








section \<open>The rollout monitor\<close>


























end
